theory Spec2Isabelle
  imports Main "HOL-Library.Word"
begin

unbundle bit_operations_syntax

section \<open>Bytes, hashlib, binascii and str\<close>

text \<open>
  Python \<^verbatim>\<open>bytes\<close> are lists of 8-bit words; Python \<^verbatim>\<open>str\<close> values are
  \<^typ>\<open>string\<close>. The exceptions the modelled code can raise are the constructors of
  \<^verbatim>\<open>error\<close>; a computation that can raise returns \<^verbatim>\<open>error + 'a\<close> with \<^verbatim>\<open>Inl\<close>
  for the exception.
\<close>

type_synonym byte = "8 word"
type_synonym bytes = "byte list"

datatype error =
    ObjectDoesNotExistError
  | NotImplementedError
  | KeyError string
  | AttributeError
  | TypeError
  | Binascii_Error
  | OverflowError

text \<open>
  \<^verbatim>\<open>chunks n xs\<close> cuts a list into consecutive pieces of \<^verbatim>\<open>n\<close> elements, the last one
  possibly shorter; no piece is empty.
\<close>

fun chunks :: "nat \<Rightarrow> 'a list \<Rightarrow> 'a list list" where
  "chunks n [] = []"
| "chunks n (x # xs) = (if n = 0 then [] else take n (x # xs) # chunks n (drop n (x # xs)))"

subsection \<open>hashlib.md5\<close>

text \<open>
  \<^verbatim>\<open>hashlib.md5\<close> is the MD5 message digest of RFC 1321. The adapter only calls it; it is
  written out here so that the digests in the concrete examples are the ones Python
  prints. \<^verbatim>\<open>md5 data\<close> is \<^verbatim>\<open>hashlib.md5(data).digest()\<close>, sixteen raw bytes.
\<close>

definition md5_shifts :: "nat list" where
  "md5_shifts = [7, 12, 17, 22, 7, 12, 17, 22, 7, 12, 17, 22, 7, 12, 17, 22,
                 5, 9, 14, 20, 5, 9, 14, 20, 5, 9, 14, 20, 5, 9, 14, 20,
                 4, 11, 16, 23, 4, 11, 16, 23, 4, 11, 16, 23, 4, 11, 16, 23,
                 6, 10, 15, 21, 6, 10, 15, 21, 6, 10, 15, 21, 6, 10, 15, 21]"

definition md5_sines :: "32 word list" where
  "md5_sines =
     [0xd76aa478, 0xe8c7b756, 0x242070db, 0xc1bdceee, 0xf57c0faf, 0x4787c62a, 0xa8304613, 0xfd469501,
      0x698098d8, 0x8b44f7af, 0xffff5bb1, 0x895cd7be, 0x6b901122, 0xfd987193, 0xa679438e, 0x49b40821,
      0xf61e2562, 0xc040b340, 0x265e5a51, 0xe9b6c7aa, 0xd62f105d, 0x02441453, 0xd8a1e681, 0xe7d3fbc8,
      0x21e1cde6, 0xc33707d6, 0xf4d50d87, 0x455a14ed, 0xa9e3e905, 0xfcefa3f8, 0x676f02d9, 0x8d2a4c8a,
      0xfffa3942, 0x8771f681, 0x6d9d6122, 0xfde5380c, 0xa4beea44, 0x4bdecfa9, 0xf6bb4b60, 0xbebfbc70,
      0x289b7ec6, 0xeaa127fa, 0xd4ef3085, 0x04881d05, 0xd9d4d039, 0xe6db99e5, 0x1fa27cf8, 0xc4ac5665,
      0xf4292244, 0x432aff97, 0xab9423a7, 0xfc93a039, 0x655b59c3, 0x8f0ccc92, 0xffeff47d, 0x85845dd1,
      0x6fa87e4f, 0xfe2ce6e0, 0xa3014314, 0x4e0811a1, 0xf7537e82, 0xbd3af235, 0x2ad7d2bb, 0xeb86d391]"

type_synonym md5_state = "32 word \<times> 32 word \<times> 32 word \<times> 32 word"

definition le_word32 :: "bytes \<Rightarrow> 32 word" where
  "le_word32 bs = foldr (\<lambda>b w. push_bit 8 w OR ucast b) bs 0"

definition word32_le :: "32 word \<Rightarrow> bytes" where
  "word32_le w = map (\<lambda>i. ucast (drop_bit (8 * i) w)) [0, 1, 2, 3]"

definition md5_step :: "32 word list \<Rightarrow> nat \<Rightarrow> md5_state \<Rightarrow> md5_state" where
  "md5_step m i st =
     (case st of (a, b, c, d) \<Rightarrow>
        let (f, g) =
              (if i < 16 then ((b AND c) OR (NOT b AND d), i)
               else if i < 32 then ((d AND b) OR (NOT d AND c), (5 * i + 1) mod 16)
               else if i < 48 then (b XOR c XOR d, (3 * i + 5) mod 16)
               else (c XOR (b OR NOT d), (7 * i) mod 16))
        in (d, b + word_rotl (md5_shifts ! i) (a + f + md5_sines ! i + m ! g), b, c))"

definition md5_block :: "md5_state \<Rightarrow> bytes \<Rightarrow> md5_state" where
  "md5_block st blk =
     (case st of (a0, b0, c0, d0) \<Rightarrow>
        case fold (md5_step (map le_word32 (chunks 4 blk))) [0..<64] st of
          (a, b, c, d) \<Rightarrow> (a0 + a, b0 + b, c0 + c, d0 + d))"

definition md5_pad :: "bytes \<Rightarrow> bytes" where
  "md5_pad msg =
     msg @ [0x80] @ replicate ((119 - length msg mod 64) mod 64) 0
         @ map (\<lambda>i. ucast (drop_bit (8 * i) (word_of_nat (8 * length msg) :: 64 word))) [0..<8]"

definition md5 :: "bytes \<Rightarrow> bytes" where
  "md5 msg =
     (case fold (\<lambda>blk st. md5_block st blk) (chunks 64 (md5_pad msg))
             (0x67452301, 0xefcdab89, 0x98badcfe, 0x10325476) of
        (a, b, c, d) \<Rightarrow> word32_le a @ word32_le b @ word32_le c @ word32_le d)"

subsection \<open>binascii and hexdigest\<close>

definition hex_digit :: "nat \<Rightarrow> char" where
  "hex_digit n = ''0123456789abcdef'' ! n"

definition hex_value :: "char \<Rightarrow> nat option" where
  "hex_value c = map_of (zip ''0123456789abcdefABCDEF'' ([0..<16] @ [10..<16])) c"

definition hexlify :: "bytes \<Rightarrow> string" where
  "hexlify bs = concat (map (\<lambda>b. [hex_digit (unat b div 16), hex_digit (unat b mod 16)]) bs)"

text \<open>
  \<^verbatim>\<open>binascii.unhexlify\<close> raises \<^verbatim>\<open>binascii.Error\<close> on a string of odd length and on
  a character that is no hexadecimal digit.
\<close>

fun unhexlify :: "string \<Rightarrow> error + bytes" where
  "unhexlify [] = Inr []"
| "unhexlify [c] = Inl Binascii_Error"
| "unhexlify (c # d # cs) =
     (case (hex_value c, hex_value d) of
        (Some h, Some l) \<Rightarrow>
          (case unhexlify cs of
             Inl e \<Rightarrow> Inl e
           | Inr bs \<Rightarrow> Inr (word_of_nat (16 * h + l) # bs))
      | _ \<Rightarrow> Inl Binascii_Error)"

text \<open>\<^verbatim>\<open>hash_obj.hexdigest()\<close> of an MD5 object that was fed \<^verbatim>\<open>data\<close>.\<close>

definition hexdigest :: "bytes \<Rightarrow> string" where
  "hexdigest data = hexlify (md5 data)"

text \<open>Python's \<^verbatim>\<open>str\<close> on a non-negative integer: its decimal digits.\<close>

function str :: "nat \<Rightarrow> string" where
  "str n = (if n < 10 then [''0123456789'' ! n]
            else str (n div 10) @ [''0123456789'' ! (n mod 10)])"
  by pat_completeness auto
termination
  by (relation "measure id") auto

declare str.simps [simp del]

section \<open>File objects\<close>

text \<open>
  The upload's underlying file is a seekable binary file object: its bytes, the current
  offset, and whether it is a \<^verbatim>\<open>tempfile.SpooledTemporaryFile\<close> (one whose data is still
  in memory, or one that has been rolled over to its temporary file on disk) or
  another file object such as \<^verbatim>\<open>BytesIO\<close>. \<^verbatim>\<open>read\<close> returns the bytes from the offset
  on, at most \<^verbatim>\<open>n\<close> of them, and advances the offset by the number of bytes returned.
\<close>

datatype file_kind = Other_file | Spooled_in_memory | Spooled_on_disk

record stream =
  contents :: bytes
  pos :: nat
  kind :: file_kind

definition remaining :: "stream \<Rightarrow> bytes" where
  "remaining f = drop (pos f) (contents f)"

definition read :: "stream \<Rightarrow> nat \<Rightarrow> bytes \<times> stream" where
  "read f n = (let block = take n (remaining f) in (block, f\<lparr>pos := pos f + length block\<rparr>))"

definition read_all :: "stream \<Rightarrow> bytes \<times> stream" where
  "read_all f = (let block = remaining f in (block, f\<lparr>pos := pos f + length block\<rparr>))"

datatype whence = SEEK_SET | SEEK_END

definition seek :: "stream \<Rightarrow> nat \<Rightarrow> whence \<Rightarrow> stream" where
  "seek f off wh =
     (case wh of
        SEEK_SET \<Rightarrow> f\<lparr>pos := off\<rparr>
      | SEEK_END \<Rightarrow> f\<lparr>pos := length (contents f) + off\<rparr>)"

definition tell :: "stream \<Rightarrow> nat" where
  "tell f = pos f"

section \<open>The remote container and the calls made to libraries\<close>

text \<open>
  A libcloud \<^verbatim>\<open>Object\<close>: its name, the size and hash the provider reports, the
  provider's extra attributes, and the bytes it holds.
\<close>

record cloud_object =
  obj_name :: string
  obj_size :: nat
  obj_hash :: string
  obj_extra :: "(string \<times> string) list"
  obj_data :: bytes

text \<open>
  The calls the adapter makes that reach the container or compute a digest, in the order
  in which they are made: \<^verbatim>\<open>hashlib.md5\<close> on a byte string, the libcloud container's
  \<^verbatim>\<open>get_object\<close>, \<^verbatim>\<open>upload_object_via_stream\<close> and \<^verbatim>\<open>delete_object\<close>, the Azure
  SDK's \<^verbatim>\<open>create_blob_from_stream\<close> (container, blob name, bytes of the stream, content
  type), and the \<^verbatim>\<open>rollover\<close> of a \<^verbatim>\<open>SpooledTemporaryFile\<close>, which writes the bytes of
  the file object to an anonymous temporary file on the local disk.
\<close>

datatype call =
    Hashlib_md5 bytes
  | Get_object string
  | Upload_object_via_stream string bytes
  | Delete_object string
  | Create_blob_from_stream string string bytes "string option"
  | Rollover bytes

text \<open>
  The world outside the process: the objects of the configured container, and the log of
  calls made so far.
\<close>

record world =
  objects :: "string \<rightharpoonup> cloud_object"
  calls :: "call list"

definition log_call :: "call \<Rightarrow> world \<Rightarrow> world" where
  "log_call c w = w\<lparr>calls := calls w @ [c]\<rparr>"

section \<open>Values of the resource dict\<close>

text \<open>
  \<^verbatim>\<open>cgi.FieldStorage\<close> has the attributes \<^verbatim>\<open>filename\<close> and \<^verbatim>\<open>file\<close>, werkzeug's
  \<^verbatim>\<open>FileStorage\<close> has \<^verbatim>\<open>filename\<close> and \<^verbatim>\<open>stream\<close>.
\<close>

datatype upload_field =
    FieldStorage "string option" stream
  | FlaskFileStorage "string option" stream

datatype pyval =
    PNone
  | PStr string
  | PBool bool
  | PDatetime int
  | PUpload upload_field

text \<open>
  Python's truth value of these values. The adapter tests it on \<^verbatim>\<open>clear_upload\<close>,
  \<^verbatim>\<open>multipart_name\<close> and \<^verbatim>\<open>id\<close>, which are strings or \<^verbatim>\<open>None\<close> in a resource
  dict.
\<close>

fun truthy :: "pyval \<Rightarrow> bool" where
  "truthy PNone = False"
| "truthy (PStr s) = (s \<noteq> [])"
| "truthy (PBool b) = b"
| "truthy (PDatetime t) = True"
| "truthy (PUpload u) = True"

text \<open>Truth value of an attribute that is \<^verbatim>\<open>None\<close> or a string.\<close>

fun truthy_str :: "string option \<Rightarrow> bool" where
  "truthy_str None = False"
| "truthy_str (Some s) = (s \<noteq> [])"





section \<open>Configuration and environment\<close>

text \<open>
  The seven keys of \<^verbatim>\<open>tk.config\<close> that config.py reads. \<^verbatim>\<open>OPTIONS\<close> is the dict that
  \<^verbatim>\<open>literal_eval\<close> yields, as an association list.
\<close>

record tk_config =
  OPTIONS :: "(string \<times> string) list"
  DRIVER :: string
  CONTAINER :: string
  SECURE_TTL :: int
  USE_SECURE :: bool
  LEAVE_FILES :: bool
  GUESS_MIMETYPE :: bool

text \<open>
  What the adapter takes from outside this repository: the configuration, the
  construction of the libcloud driver of a name with the driver options
  (\<^verbatim>\<open>get_driver(getattr(Provider, name))(**options)\<close>, which raises for a name that
  \<^verbatim>\<open>Provider\<close> does not have and for options the driver does not take), which optional
  packages import, CKAN's \<^verbatim>\<open>munge_filename\<close>, \<^verbatim>\<open>mimetypes.guess_type\<close> (its first
  component), \<^verbatim>\<open>os.path.isfile\<close> and \<^verbatim>\<open>os.path.getsize\<close> on the process's file system,
  the clock (\<^verbatim>\<open>datetime.utcnow()\<close>, in microseconds), the url of the resource row CKAN's
  database holds for an id (\<^verbatim>\<open>None\<close> when there is no row), the driver's
  \<^verbatim>\<open>get_object_cdn_url\<close> (\<^verbatim>\<open>None\<close> when it raises \<^verbatim>\<open>NotImplementedError\<close>) and
  \<^verbatim>\<open>connection.host\<close>, \<^verbatim>\<open>urllib.parse.urljoin\<close>, and the hash and extra attributes the
  provider records for an object it stores.
\<close>

record env =
  config :: tk_config
  new_driver :: "string \<Rightarrow> (string \<times> string) list \<Rightarrow> error + unit"
  azure_storage_installed :: bool
  boto3_installed :: bool
  munge_filename :: "string \<Rightarrow> string"
  guess_type :: "string \<Rightarrow> string option"
  isfile :: "string \<Rightarrow> bool"
  getsize :: "string \<Rightarrow> nat"
  utcnow :: int
  db_resource_url :: "pyval \<Rightarrow> string option option"
  get_object_cdn_url :: "cloud_object \<Rightarrow> string option"
  connection_host :: string
  urljoin :: "string \<Rightarrow> string \<Rightarrow> string"
  provider_hash :: "bytes \<Rightarrow> string"
  provider_extra :: "string \<Rightarrow> (string \<times> string) list"

subsection \<open>config.py\<close>

definition config_options :: "env \<Rightarrow> (string \<times> string) list" where
  "config_options e = OPTIONS (config e)"

definition config_driver :: "env \<Rightarrow> string" where
  "config_driver e = DRIVER (config e)"

definition config_container :: "env \<Rightarrow> string" where
  "config_container e = CONTAINER (config e)"

definition config_secure_ttl :: "env \<Rightarrow> int" where
  "config_secure_ttl e = SECURE_TTL (config e)"

definition config_use_secure :: "env \<Rightarrow> bool" where
  "config_use_secure e = USE_SECURE (config e)"

definition config_leave_files :: "env \<Rightarrow> bool" where
  "config_leave_files e = LEAVE_FILES (config e)"

definition config_guess_mimetype :: "env \<Rightarrow> bool" where
  "config_guess_mimetype e = GUESS_MIMETYPE (config e)"

section \<open>storage.py\<close>

definition AWS_UPLOAD_PART_SIZE :: nat where
  "AWS_UPLOAD_PART_SIZE = 5 * 1024 * 1024"

subsection \<open>\_md5sum\<close>

text \<open>
  The \<^verbatim>\<open>while block:\<close> loop of \<^verbatim>\<open>_md5sum\<close>, with the loop variables \<^verbatim>\<open>block_count\<close>
  and \<^verbatim>\<open>md5string\<close> as arguments. It ends at the first empty read.
\<close>

function md5sum_loop ::
  "stream \<Rightarrow> nat \<Rightarrow> bytes \<Rightarrow> world \<Rightarrow> error + (stream \<times> nat \<times> bytes \<times> world)" where
  "md5sum_loop fobj block_count md5string w =
     (case read fobj AWS_UPLOAD_PART_SIZE of
        (block, fobj') \<Rightarrow>
          if block \<noteq> [] then
            (case unhexlify (hexdigest block) of
               Inl e \<Rightarrow> Inl e
             | Inr raw \<Rightarrow>
                 md5sum_loop fobj' (block_count + 1) (md5string @ raw)
                   (log_call (Hashlib_md5 block) w))
          else Inr (fobj', block_count, md5string, w))"
  by pat_completeness auto
termination
  apply (relation "measure (\<lambda>(fobj, block_count, md5string, w). length (contents fobj) - pos fobj)")
   apply simp
  apply (simp add: read_def remaining_def Let_def)
  apply auto
  done

declare md5sum_loop.simps [simp del]

text \<open>
  \<^verbatim>\<open>_md5sum(fobj)\<close>: the loop, then \<^verbatim>\<open>fobj.seek(0, os.SEEK_SET)\<close>, then the hex digest of
  \<^verbatim>\<open>md5string\<close> followed by a dash and the number of blocks.
\<close>

definition md5sum :: "stream \<Rightarrow> world \<Rightarrow> error + (string \<times> stream \<times> world)" where
  "md5sum fobj w =
     (case md5sum_loop fobj 0 [] w of
        Inl e \<Rightarrow> Inl e
      | Inr (fobj1, block_count, md5string, w1) \<Rightarrow>
          let fobj2 = seek fobj1 0 SEEK_SET
          in Inr (hexdigest md5string @ ''-'' @ str block_count, fobj2,
                  log_call (Hashlib_md5 md5string) w1))"


subsection \<open>CloudStorage\<close>

text \<open>
  The properties of \<^verbatim>\<open>CloudStorage\<close>, and its \<^verbatim>\<open>__init__\<close>, which constructs the
  libcloud driver and raises what that raises. The container that the \<^verbatim>\<open>container\<close>
  property fetches on first use is the \<^verbatim>\<open>objects\<close> of the world: the configured
  container exists and the provider answers, so \<^verbatim>\<open>get_object\<close> fails only with
  \<^verbatim>\<open>ObjectDoesNotExistError\<close>.
\<close>

definition driver_options :: "env \<Rightarrow> (string \<times> string) list" where
  "driver_options e = config_options e"

definition driver_name :: "env \<Rightarrow> string" where
  "driver_name e = config_driver e"

definition container_name :: "env \<Rightarrow> string" where
  "container_name e = config_container e"

definition use_secure_urls :: "env \<Rightarrow> bool" where
  "use_secure_urls e = config_use_secure e"

definition leave_files :: "env \<Rightarrow> bool" where
  "leave_files e = config_leave_files e"

definition guess_mimetype :: "env \<Rightarrow> bool" where
  "guess_mimetype e = config_guess_mimetype e"

text \<open>Python's \<^verbatim>\<open>needle in haystack\<close> on strings.\<close>

fun str_in :: "string \<Rightarrow> string \<Rightarrow> bool" where
  "str_in needle [] = (needle = [])"
| "str_in needle (c # cs) = (take (length needle) (c # cs) = needle \<or> str_in needle cs)"

definition can_use_advanced_azure :: "env \<Rightarrow> bool" where
  "can_use_advanced_azure e =
     (if driver_name e = ''AZURE_BLOBS'' then
        (if azure_storage_installed e then True else False)
      else False)"

definition can_use_advanced_aws :: "env \<Rightarrow> bool" where
  "can_use_advanced_aws e =
     (if str_in ''S3'' (driver_name e) then
        (if map_of (driver_options e) ''host'' = None then False
         else if boto3_installed e then True
         else False)
      else False)"


text \<open>\<^verbatim>\<open>d[k]\<close> on the driver options: \<^verbatim>\<open>KeyError\<close> when the key is missing.\<close>

definition option_item :: "env \<Rightarrow> string \<Rightarrow> error + string" where
  "option_item e k =
     (case map_of (driver_options e) k of None \<Rightarrow> Inl (KeyError k) | Some v \<Rightarrow> Inr v)"

subsection \<open>The libcloud container\<close>

text \<open>
  \<^verbatim>\<open>get_object\<close> returns the object of that name or raises
  \<^verbatim>\<open>ObjectDoesNotExistError\<close>; it never returns \<^verbatim>\<open>None\<close>, so the test
  \<^verbatim>\<open>if obj is None\<close> of \<^verbatim>\<open>get_url_by_path\<close> has no branch of its own below.
  \<^verbatim>\<open>upload_object_via_stream\<close> stores the bytes of the iterator under the name,
  replacing an object of that name; \<^verbatim>\<open>delete_object\<close> removes the object.
\<close>

definition get_object :: "world \<Rightarrow> string \<Rightarrow> (error + cloud_object) \<times> world" where
  "get_object w object_name =
     (case objects w object_name of
        None \<Rightarrow> (Inl ObjectDoesNotExistError, log_call (Get_object object_name) w)
      | Some obj \<Rightarrow> (Inr obj, log_call (Get_object object_name) w))"

definition stored_object :: "env \<Rightarrow> string \<Rightarrow> bytes \<Rightarrow> cloud_object" where
  "stored_object e object_name data =
     \<lparr>obj_name = object_name, obj_size = length data, obj_hash = provider_hash e data,
      obj_extra = provider_extra e object_name, obj_data = data\<rparr>"

definition upload_object_via_stream :: "env \<Rightarrow> world \<Rightarrow> bytes \<Rightarrow> string \<Rightarrow> world" where
  "upload_object_via_stream e w iterator object_name =
     log_call (Upload_object_via_stream object_name iterator)
       (w\<lparr>objects := (objects w)(object_name \<mapsto> stored_object e object_name iterator)\<rparr>)"

definition delete_object :: "world \<Rightarrow> cloud_object \<Rightarrow> (error + unit) \<times> world" where
  "delete_object w obj =
     (case objects w (obj_name obj) of
        None \<Rightarrow> (Inl ObjectDoesNotExistError, log_call (Delete_object (obj_name obj)) w)
      | Some old \<Rightarrow>
          (Inr (), log_call (Delete_object (obj_name obj))
                     (w\<lparr>objects := (objects w)(obj_name obj := None)\<rparr>)))"

text \<open>
  The Azure SDK's \<^verbatim>\<open>create_blob_from_stream\<close> writes the rest of the stream to the blob
  of that name in the same remote container and returns the properties of the blob.
\<close>

definition create_blob_from_stream ::
  "env \<Rightarrow> world \<Rightarrow> string \<Rightarrow> string \<Rightarrow> bytes \<Rightarrow> string option \<Rightarrow> cloud_object \<times> world" where
  "create_blob_from_stream e w cname blob_name data content_settings =
     (stored_object e blob_name data,
      log_call (Create_blob_from_stream cname blob_name data content_settings)
        (w\<lparr>objects := (objects w)(blob_name \<mapsto> stored_object e blob_name data)\<rparr>))"

subsection \<open>ResourceCloudStorage\<close>

record storage =
  filename :: "string option"
  old_filename :: "string option"
  file_upload :: "stream option"
  clear :: pyval
  resource :: "string \<rightharpoonup> pyval"


text \<open>\<^verbatim>\<open>os.path.join\<close> of posixpath: one step of its loop, and the loop.\<close>

definition path_join_step :: "string \<Rightarrow> string \<Rightarrow> string" where
  "path_join_step path b =
     (if take 1 b = ''/'' then b
      else if path = [] \<or> last path = CHR ''/'' then path @ b
      else path @ ''/'' @ b)"

definition os_path_join :: "string \<Rightarrow> string list \<Rightarrow> string" where
  "os_path_join a p = foldl path_join_step a p"

definition path_from_filename :: "env \<Rightarrow> string \<Rightarrow> string \<Rightarrow> string" where
  "path_from_filename e rid fname = os_path_join ''resources'' [rid, munge_filename e fname]"

text \<open>
  \<^verbatim>\<open>SpooledTemporaryFile.rollover()\<close>: data still in memory is written to the temporary
  file on disk, the offset stays; a file that has been rolled over stays as it is.
\<close>

definition rollover :: "stream \<Rightarrow> world \<Rightarrow> stream \<times> world" where
  "rollover f w =
     (if kind f = Spooled_in_memory
      then (f\<lparr>kind := Spooled_on_disk\<rparr>, log_call (Rollover (contents f)) w)
      else (f, w))"

text \<open>
  Lines 328 to 346 of \<^verbatim>\<open>upload\<close>: a \<^verbatim>\<open>SpooledTemporaryFile\<close> is rolled over and its
  underlying file taken, any other file object is iterated; either way the rest of the
  file object is handed to \<^verbatim>\<open>upload_object_via_stream\<close>, which reads it to its end.
\<close>

definition upload_stream ::
  "env \<Rightarrow> storage \<Rightarrow> stream \<Rightarrow> string \<Rightarrow> world
     \<Rightarrow> (error + cloud_object option) \<times> storage \<times> world" where
  "upload_stream e self f object_name w =
     (case (if kind f \<noteq> Other_file then rollover f w else (f, w)) of
        (f1, w1) \<Rightarrow>
          (case read_all f1 of (file_upload_iter, f') \<Rightarrow>
             (Inr None, self\<lparr>file_upload := Some f'\<rparr>,
              upload_object_via_stream e w1 file_upload_iter object_name)))"

text \<open>Lines 251 to 267: the upload through the Azure SDK.\<close>

definition upload_azure ::
  "env \<Rightarrow> storage \<Rightarrow> string \<Rightarrow> world \<Rightarrow> (error + cloud_object option) \<times> storage \<times> world" where
  "upload_azure e self rid w =
     (case option_item e ''key'' of
        Inl err \<Rightarrow> (Inl err, self, w)
      | Inr key \<Rightarrow>
     (case option_item e ''secret'' of
        Inl err \<Rightarrow> (Inl err, self, w)
      | Inr secret \<Rightarrow>
          let content_settings =
                (if guess_mimetype e then
                   (case guess_type e (the (filename self)) of
                      None \<Rightarrow> None
                    | Some content_type \<Rightarrow>
                        if content_type \<noteq> [] then Some content_type else None)
                 else None);
              blob_name = path_from_filename e rid (the (filename self))
          in (case file_upload self of
                None \<Rightarrow> (Inl AttributeError, self, w)
              | Some f \<Rightarrow>
                  (case read_all f of (data, f') \<Rightarrow>
                   case create_blob_from_stream e w (container_name e) blob_name data
                          content_settings of
                     (props, w') \<Rightarrow> (Inr (Some props), self\<lparr>file_upload := Some f'\<rparr>, w')))))"

text \<open>
  Lines 269 to 349: the upload through libcloud, after the check for an object that is
  already there.
\<close>

definition upload_libcloud ::
  "env \<Rightarrow> storage \<Rightarrow> string \<Rightarrow> world \<Rightarrow> (error + cloud_object option) \<times> storage \<times> world" where
  "upload_libcloud e self rid w =
     (case file_upload self of
        None \<Rightarrow> (Inl AttributeError, self, w)
      | Some f0 \<Rightarrow>
          let object_name = path_from_filename e rid (the (filename self))
          in (case get_object w object_name of
                (Inl ObjectDoesNotExistError, w1) \<Rightarrow> upload_stream e self f0 object_name w1
              | (Inl err, w1) \<Rightarrow> (Inl err, self, w1)
              | (Inr cloud_object, w1) \<Rightarrow>
                  (case (if isfile e (the (filename self))
                         then (getsize e (the (filename self)), f0)
                         else (let f = seek f0 0 SEEK_END; file_size = tell f
                               in (file_size, seek f 0 SEEK_SET))) of
                     (file_size, f1) \<Rightarrow>
                       if file_size = obj_size cloud_object then
                         (case read_all f1 of (data, f2) \<Rightarrow>
                            let hash_file = hexdigest data;
                                w2 = log_call (Hashlib_md5 data) w1;
                                f3 = seek f2 0 SEEK_SET
                            in if hash_file = obj_hash cloud_object then
                                 (Inr None, self\<lparr>file_upload := Some f3\<rparr>, w2)
                               else
                                 (case md5sum f3 w2 of
                                    Inl err \<Rightarrow> (Inl err, self\<lparr>file_upload := Some f3\<rparr>, w2)
                                  | Inr (multi_hash_file, f4, w3) \<Rightarrow>
                                      if multi_hash_file = obj_hash cloud_object then
                                        (Inr None, self\<lparr>file_upload := Some f4\<rparr>, w3)
                                      else upload_stream e self f4 object_name w3))
                       else upload_stream e self f1 object_name w1)))"

text \<open>Lines 354 to 364: the deletion of the old file.\<close>

definition upload_clear ::
  "env \<Rightarrow> storage \<Rightarrow> string \<Rightarrow> world \<Rightarrow> (error + cloud_object option) \<times> storage \<times> world" where
  "upload_clear e self rid w =
     (case get_object w (path_from_filename e rid (the (old_filename self))) of
        (Inl ObjectDoesNotExistError, w1) \<Rightarrow> (Inr None, self, w1)
      | (Inl err, w1) \<Rightarrow> (Inl err, self, w1)
      | (Inr obj, w1) \<Rightarrow>
          (case delete_object w1 obj of
             (Inl ObjectDoesNotExistError, w2) \<Rightarrow> (Inr None, self, w2)
           | (Inl err, w2) \<Rightarrow> (Inl err, self, w2)
           | (Inr u, w2) \<Rightarrow> (Inr None, self, w2)))"

text \<open>
  \<^verbatim>\<open>ResourceCloudStorage.upload(id)\<close>. The result is the value returned (\<^verbatim>\<open>None\<close>, or
  what the Azure SDK returned) or the exception raised, with the storage object and the
  world as the call leaves them. The handler of lines 347 to 349 logs and raises the
  same exception again.
\<close>

definition upload ::
  "env \<Rightarrow> storage \<Rightarrow> string \<Rightarrow> world \<Rightarrow> (error + cloud_object option) \<times> storage \<times> world" where
  "upload e self rid w =
     (if truthy_str (filename self) then
        (if can_use_advanced_azure e then upload_azure e self rid w
         else upload_libcloud e self rid w)
      else if truthy (clear self) \<and> truthy_str (old_filename self) \<and> \<not> leave_files e then
        upload_clear e self rid w
      else (Inr None, self, w))"

text \<open>
  The URLs \<^verbatim>\<open>get_url_by_path\<close> returns: the Azure SDK's \<^verbatim>\<open>make_blob_url\<close> with a shared
  access signature for reading (account key, secret, container, blob, expiry in
  microseconds since 1970), boto3's \<^verbatim>\<open>generate_presigned_url\<close> for \<^verbatim>\<open>get_object\<close> (key id, secret,
  region, bucket, key, \<^verbatim>\<open>ExpiresIn\<close> in seconds), or a URL that the adapter did not
  have signed.
\<close>

datatype url =
    Azure_sas_url string string string string int
  | S3_presigned_url string string "string option" string string int
  | Plain_url string

text \<open>
  \<^verbatim>\<open>timedelta(seconds=n)\<close>, in microseconds: \<^verbatim>\<open>OverflowError\<close> when the number of days
  exceeds 999999999 in magnitude. And \<^verbatim>\<open>datetime + timedelta\<close>: \<^verbatim>\<open>OverflowError\<close>
  when the sum is before \<^verbatim>\<open>datetime.min\<close> (year 1) or after \<^verbatim>\<open>datetime.max\<close> (the last
  microsecond of year 9999).
\<close>

definition timedelta_seconds :: "int \<Rightarrow> error + int" where
  "timedelta_seconds n =
     (if - 999999999 \<le> n div 86400 \<and> n div 86400 \<le> 999999999 then Inr (n * 1000000)
      else Inl OverflowError)"

definition datetime_min :: int where
  "datetime_min = - 62135596800000000"

definition datetime_max :: int where
  "datetime_max = 253402300799999999"

definition datetime_add :: "int \<Rightarrow> int \<Rightarrow> error + int" where
  "datetime_add t d =
     (if datetime_min \<le> t + d \<and> t + d \<le> datetime_max then Inr (t + d)
      else Inl OverflowError)"

definition get_url_by_path :: "env \<Rightarrow> world \<Rightarrow> string \<Rightarrow> (error + url option) \<times> world" where
  "get_url_by_path e w path =
     (if can_use_advanced_azure e \<and> use_secure_urls e then
        (case option_item e ''key'' of
           Inl err \<Rightarrow> (Inl err, w)
         | Inr key \<Rightarrow>
        (case option_item e ''secret'' of
           Inl err \<Rightarrow> (Inl err, w)
         | Inr secret \<Rightarrow>
        (case timedelta_seconds (config_secure_ttl e) of
           Inl err \<Rightarrow> (Inl err, w)
         | Inr delta \<Rightarrow>
        (case datetime_add (utcnow e) delta of
           Inl err \<Rightarrow> (Inl err, w)
         | Inr expiry \<Rightarrow>
             (Inr (Some (Azure_sas_url key secret (container_name e) path expiry)), w)))))
      else if can_use_advanced_aws e \<and> use_secure_urls e then
        (case option_item e ''key'' of
           Inl err \<Rightarrow> (Inl err, w)
         | Inr key \<Rightarrow>
        (case option_item e ''secret'' of
           Inl err \<Rightarrow> (Inl err, w)
         | Inr secret \<Rightarrow>
             (Inr (Some (S3_presigned_url key secret (map_of (driver_options e) ''region'')
                           (container_name e) path (config_secure_ttl e))), w)))
      else
        (case get_object w path of
           (Inl ObjectDoesNotExistError, w1) \<Rightarrow> (Inr None, w1)
         | (Inl err, w1) \<Rightarrow> (Inl err, w1)
         | (Inr obj, w1) \<Rightarrow>
             (case get_object_cdn_url e obj of
                Some u \<Rightarrow> (Inr (Some (Plain_url u)), w1)
              | None \<Rightarrow>
                  if str_in ''S3'' (driver_name e) then
                    (Inr (Some (Plain_url (urljoin e (''https://'' @ connection_host e)
                                             (container_name e @ ''/'' @ path)))), w1)
                  else
                    (case map_of (obj_extra obj) ''url'' of
                       Some u \<Rightarrow> (Inr (Some (Plain_url u)), w1)
                     | None \<Rightarrow> (Inl NotImplementedError, w1)))))"

definition get_url_from_filename ::
  "env \<Rightarrow> world \<Rightarrow> string \<Rightarrow> string \<Rightarrow> (error + url option) \<times> world" where
  "get_url_from_filename e w rid fname = get_url_by_path e w (path_from_filename e rid fname)"

section \<open>Notions used in the statements\<close>

text \<open>
  The digest as the specification words it: the MD5 hex digest of the concatenated raw
  MD5 digests of the consecutive blocks of \<^verbatim>\<open>AWS_UPLOAD_PART_SIZE\<close> bytes, a dash, and the
  number of non-empty blocks.
\<close>

definition multipart_digest :: "bytes \<Rightarrow> string" where
  "multipart_digest data =
     (let blocks = chunks AWS_UPLOAD_PART_SIZE data
      in hexlify (md5 (concat (map md5 blocks))) @ ''-''
           @ str (length (filter (\<lambda>block. block \<noteq> []) blocks)))"

text \<open>The calls to \<^verbatim>\<open>hashlib.md5\<close> that one run of \<^verbatim>\<open>_md5sum\<close> over \<^verbatim>\<open>data\<close> makes.\<close>

definition md5sum_calls :: "bytes \<Rightarrow> call list" where
  "md5sum_calls data =
     map Hashlib_md5 (chunks AWS_UPLOAD_PART_SIZE data)
       @ [Hashlib_md5 (concat (map md5 (chunks AWS_UPLOAD_PART_SIZE data)))]"

text \<open>
  The size that \<^verbatim>\<open>upload\<close> compares with the size of the object found (lines 283 to 288):
  the size of the local file whose name is the munged filename when there is such a
  file, otherwise the length of the file object. And the bytes whose MD5 digest it
  computes first (line 297): what the file object yields from the offset it then has.
\<close>

definition measured_size :: "env \<Rightarrow> string \<Rightarrow> stream \<Rightarrow> nat" where
  "measured_size e fname f = (if isfile e fname then getsize e fname else length (contents f))"

definition hashed_bytes :: "env \<Rightarrow> string \<Rightarrow> stream \<Rightarrow> bytes" where
  "hashed_bytes e fname f = (if isfile e fname then remaining f else contents f)"

text \<open>The check of lines 291 to 321 that lets \<^verbatim>\<open>upload\<close> return without uploading.\<close>

definition already_uploaded :: "env \<Rightarrow> string \<Rightarrow> stream \<Rightarrow> cloud_object \<Rightarrow> bool" where
  "already_uploaded e fname f obj =
     (obj_size obj = measured_size e fname f \<and>
      (obj_hash obj = hexdigest (hashed_bytes e fname f) \<or>
       obj_hash obj = multipart_digest (contents f)))"


text \<open>Kinds of calls, and the calls that an operation added to the log.\<close>

fun is_hash_call :: "call \<Rightarrow> bool" where
  "is_hash_call (Hashlib_md5 data) = True"
| "is_hash_call c = False"

fun is_delete_call :: "call \<Rightarrow> bool" where
  "is_delete_call (Delete_object n) = True"
| "is_delete_call c = False"



text \<open>The rollover that precedes \<^verbatim>\<open>upload_object_via_stream\<close> of a file object.\<close>

definition rollover_calls :: "stream \<Rightarrow> call list" where
  "rollover_calls f = (if kind f = Spooled_in_memory then [Rollover (contents f)] else [])"

definition new_calls :: "world \<Rightarrow> world \<Rightarrow> call list" where
  "new_calls w w' = drop (length (calls w)) (calls w')"

section \<open>A concrete installation\<close>

text \<open>
  An S3 installation without secure URLs, and the upload of a file \<^verbatim>\<open>data.csv\<close> with
  the three bytes \<^verbatim>\<open>abc\<close> to the resource \<^verbatim>\<open>r1\<close>. CKAN's \<^verbatim>\<open>munge_filename\<close> leaves
  \<^verbatim>\<open>data.csv\<close> as it is, and \<^verbatim>\<open>urljoin\<close> of a host and a relative path puts a slash
  between them; the functions below agree with them on the strings used here. libcloud
  has drivers named \<^verbatim>\<open>S3\<close>, \<^verbatim>\<open>AZURE_BLOBS\<close> and \<^verbatim>\<open>GOOGLE_STORAGE\<close>, which need a
  \<^verbatim>\<open>key\<close>; for a name that
  \<^verbatim>\<open>Provider\<close> does not have, \<^verbatim>\<open>getattr\<close> raises \<^verbatim>\<open>AttributeError\<close>. The upload is
  small, so its file object is a \<^verbatim>\<open>BytesIO\<close>.
\<close>

definition abc :: bytes where
  "abc = [0x61, 0x62, 0x63]"

definition example_config :: tk_config where
  "example_config =
     \<lparr>OPTIONS = [(''key'', ''AKIAEXAMPLE''), (''secret'', ''s3cr3t'')],
      DRIVER = ''S3'', CONTAINER = ''ckan'', SECURE_TTL = 3600,
      USE_SECURE = False, LEAVE_FILES = False, GUESS_MIMETYPE = False\<rparr>"

definition example_env :: env where
  "example_env =
     \<lparr>config = example_config,
      new_driver = (\<lambda>name options.
         if name = ''S3'' \<or> name = ''AZURE_BLOBS'' \<or> name = ''GOOGLE_STORAGE''
         then (if map_of options ''key'' = None then Inl TypeError else Inr ())
         else Inl AttributeError),
      azure_storage_installed = False, boto3_installed = True,
      munge_filename = id, guess_type = (\<lambda>name. None),
      isfile = (\<lambda>name. False), getsize = (\<lambda>name. 0),
      utcnow = 1700000000000000, db_resource_url = (\<lambda>rid. None),
      get_object_cdn_url = (\<lambda>obj. None), connection_host = ''s3.amazonaws.com'',
      urljoin = (\<lambda>base rel. base @ ''/'' @ rel),
      provider_hash = hexdigest, provider_extra = (\<lambda>name. [])\<rparr>"

definition example_stream :: stream where
  "example_stream = \<lparr>contents = abc, pos = 0, kind = Other_file\<rparr>"


definition example_storage :: storage where
  "example_storage =
     \<lparr>filename = Some ''data.csv'', old_filename = None, file_upload = Some example_stream,
      clear = PNone,
      resource = [''id'' \<mapsto> PStr ''r1'', ''url'' \<mapsto> PStr ''data.csv'',
                  ''url_type'' \<mapsto> PStr ''upload'',
                  ''last_modified'' \<mapsto> PDatetime 1700000000000000]\<rparr>"

definition example_path :: string where
  "example_path = ''resources/r1/data.csv''"

text \<open>The object that an earlier upload of the same three bytes left in the container.\<close>

definition example_object :: cloud_object where
  "example_object =
     \<lparr>obj_name = example_path, obj_size = 3, obj_hash = ''900150983cd24fb0d6963f7d28e17f72'',
      obj_extra = [], obj_data = abc\<rparr>"

definition example_world :: world where
  "example_world = \<lparr>objects = [example_path \<mapsto> example_object], calls = []\<rparr>"

definition empty_world :: world where
  "empty_world = \<lparr>objects = Map.empty, calls = []\<rparr>"


text \<open>
  The calls to \<^verbatim>\<open>hashlib.md5\<close> that \<^verbatim>\<open>upload\<close> makes itself: none on the Azure path and
  none when there is no filename; on the libcloud path, when an object is found whose
  size equals the measured size, one for the bytes read from the upload, and, when that
  digest is not the hash of the object, those of \<^verbatim>\<open>_md5sum\<close>.
\<close>

definition upload_hash_calls :: "env \<Rightarrow> storage \<Rightarrow> string \<Rightarrow> world \<Rightarrow> call list" where
  "upload_hash_calls e self rid w =
     (if truthy_str (filename self) \<and> \<not> can_use_advanced_azure e then
        (case (file_upload self, objects w (path_from_filename e rid (the (filename self)))) of
           (Some f, Some obj) \<Rightarrow>
             if obj_size obj = measured_size e (the (filename self)) f then
               Hashlib_md5 (hashed_bytes e (the (filename self)) f)
                 # (if hexdigest (hashed_bytes e (the (filename self)) f) = obj_hash obj then []
                    else md5sum_calls (contents f))
             else []
         | _ \<Rightarrow> [])
      else [])"

text \<open>
  A resource whose uploaded file is being replaced by a link: \<^verbatim>\<open>clear_upload\<close> was set
  and the row in the database names the old file.
\<close>

definition clearing_storage :: storage where
  "clearing_storage =
     \<lparr>filename = None, old_filename = Some ''data.csv'', file_upload = None,
      clear = PStr ''true'',
      resource = [''id'' \<mapsto> PStr ''r1'', ''url_type'' \<mapsto> PStr []]\<rparr>"

definition leave_files_env :: env where
  "leave_files_env = example_env\<lparr>config := example_config\<lparr>LEAVE_FILES := True\<rparr>\<rparr>"

text \<open>
  Two installations with secure URLs: Azure with the \<^verbatim>\<open>azure-storage\<close> package, and S3
  with a \<^verbatim>\<open>host\<close> driver option and \<^verbatim>\<open>boto3\<close>.
\<close>

definition azure_env :: env where
  "azure_env =
     example_env\<lparr>config := example_config\<lparr>DRIVER := ''AZURE_BLOBS'', USE_SECURE := True\<rparr>,
                 azure_storage_installed := True\<rparr>"

definition aws_secure_env :: env where
  "aws_secure_env =
     example_env\<lparr>config := example_config
                   \<lparr>OPTIONS := [(''key'', ''AKIAEXAMPLE''), (''secret'', ''s3cr3t''),
                               (''host'', ''s3.amazonaws.com''), (''region'', ''eu-west-1'')],
                    USE_SECURE := True\<rparr>\<rparr>"

text \<open>A container whose object at the path has the size of the upload and another hash.\<close>

definition stale_object :: cloud_object where
  "stale_object = example_object\<lparr>obj_hash := ''0123456789abcdef0123456789abcdef''\<rparr>"

definition stale_world :: world where
  "stale_world = \<lparr>objects = [example_path \<mapsto> stale_object], calls = []\<rparr>"

text \<open>
  Whether the expiry of the Azure signature can be computed: \<^verbatim>\<open>timedelta\<close> takes the
  number of seconds, and the time of the call plus that many seconds is a \<^verbatim>\<open>datetime\<close>.
\<close>

definition expiry_representable :: "env \<Rightarrow> bool" where
  "expiry_representable e =
     (- 999999999 \<le> config_secure_ttl e div 86400 \<and> config_secure_ttl e div 86400 \<le> 999999999
      \<and> datetime_min \<le> utcnow e + config_secure_ttl e * 1000000
      \<and> utcnow e + config_secure_ttl e * 1000000 \<le> datetime_max)"

section \<open>Further installations and uploads\<close>

text \<open>
  S3 with secure URLs whose driver options have no \<^verbatim>\<open>secret\<close>; Azure with secure URLs
  that are to stay valid for 300000000000 seconds, some 9500 years; and a Google Storage
  driver, which has no \<^verbatim>\<open>S3\<close> in its name, without secure URLs.
\<close>

definition aws_no_secret_env :: env where
  "aws_no_secret_env =
     example_env\<lparr>config := example_config
                   \<lparr>OPTIONS := [(''key'', ''AKIAEXAMPLE''), (''host'', ''s3.amazonaws.com'')],
                    USE_SECURE := True\<rparr>\<rparr>"

definition azure_long_ttl_env :: env where
  "azure_long_ttl_env =
     example_env\<lparr>config := example_config\<lparr>DRIVER := ''AZURE_BLOBS'', USE_SECURE := True,
                                           SECURE_TTL := 300000000000\<rparr>,
                 azure_storage_installed := True\<rparr>"

definition google_env :: env where
  "google_env = example_env\<lparr>config := example_config\<lparr>DRIVER := ''GOOGLE_STORAGE''\<rparr>\<rparr>"












section \<open>Properties\<close>

subsection \<open>The digest of \_md5sum\<close>

lemma hex_digits_all: "list_all (\<lambda>n. hex_value (hex_digit n) = Some n) [0..<16]"
  by code_simp

lemma hex_digit_lt: "n < 16 \<Longrightarrow> hex_value (hex_digit n) = Some n"
  using hex_digits_all by (simp add: list_all_iff)

lemma unhexlify_hexlify: "unhexlify (hexlify bs) = Inr bs"
proof (induction bs)
  case Nil
  show ?case by (simp add: hexlify_def)
next
  case (Cons b bs)
  have lt: "unat b < 256" using unsigned_less [of b, where 'a=nat] by simp
  have h: "hex_value (hex_digit (unat b div 16)) = Some (unat b div 16)"
    using lt by (intro hex_digit_lt) simp
  have l: "hex_value (hex_digit (unat b mod 16)) = Some (unat b mod 16)"
    by (intro hex_digit_lt) simp
  have w: "(word_of_nat (16 * (unat b div 16) + unat b mod 16) :: byte) = b"
    by simp
  from Cons.IH have "unhexlify (hexlify bs) = Inr bs" .
  then show ?case
    using h l w by (simp add: hexlify_def)
qed

lemma unhexlify_hexdigest: "unhexlify (hexdigest block) = Inr (md5 block)"
  by (simp add: hexdigest_def unhexlify_hexlify)

lemma part_size_pos: "0 < AWS_UPLOAD_PART_SIZE"
  by (simp add: AWS_UPLOAD_PART_SIZE_def)

lemma chunks_step: "xs \<noteq> [] \<Longrightarrow> 0 < n \<Longrightarrow> chunks n xs = take n xs # chunks n (drop n xs)"
  by (cases xs) simp_all

lemma chunks_nonempty: "b \<in> set (chunks n xs) \<Longrightarrow> b \<noteq> []"
  by (induction n xs rule: chunks.induct) (auto split: if_splits)

lemma remaining_read:
  "remaining (snd (read f n)) = drop n (remaining f)"
  by (simp add: read_def remaining_def Let_def min_def add.commute)

lemma md5sum_loop_eq:
  "md5sum_loop fobj k acc w =
     Inr (fobj\<lparr>pos := pos fobj + length (remaining fobj)\<rparr>,
          k + length (chunks AWS_UPLOAD_PART_SIZE (remaining fobj)),
          acc @ concat (map md5 (chunks AWS_UPLOAD_PART_SIZE (remaining fobj))),
          w\<lparr>calls := calls w @ map Hashlib_md5 (chunks AWS_UPLOAD_PART_SIZE (remaining fobj))\<rparr>)"
proof (induction fobj k acc w rule: md5sum_loop.induct)
  case (1 fobj block_count md5string w)
  let ?N = AWS_UPLOAD_PART_SIZE
  let ?r = "remaining fobj"
  let ?block = "take ?N ?r"
  let ?f' = "fobj\<lparr>pos := pos fobj + length ?block\<rparr>"
  have rd: "read fobj ?N = (?block, ?f')"
    by (simp add: read_def Let_def)
  show ?case
  proof (cases "?r = []")
    case True
    then have "?block = []" by simp
    with rd True show ?thesis
      by (subst md5sum_loop.simps) simp
  next
    case False
    then have ne: "?block \<noteq> []" using part_size_pos by simp
    have rem: "remaining ?f' = drop ?N ?r"
      using remaining_read [of fobj ?N] rd by simp
    have ch: "chunks ?N ?r = ?block # chunks ?N (drop ?N ?r)"
      using chunks_step [OF False part_size_pos] .
    have len: "length ?block + length (drop ?N ?r) = length ?r"
      by simp
    have IH: "md5sum_loop ?f' (block_count + 1) (md5string @ md5 ?block)
                 (log_call (Hashlib_md5 ?block) w) =
       Inr (?f'\<lparr>pos := pos ?f' + length (remaining ?f')\<rparr>,
          block_count + 1 + length (chunks ?N (remaining ?f')),
          (md5string @ md5 ?block) @ concat (map md5 (chunks ?N (remaining ?f'))),
          (log_call (Hashlib_md5 ?block) w)\<lparr>calls := calls (log_call (Hashlib_md5 ?block) w)
               @ map Hashlib_md5 (chunks ?N (remaining ?f'))\<rparr>)"
      using "1.IH" [OF rd [symmetric] ne unhexlify_hexdigest] .
    have "md5sum_loop fobj block_count md5string w =
          md5sum_loop ?f' (block_count + 1) (md5string @ md5 ?block)
                 (log_call (Hashlib_md5 ?block) w)"
      using rd ne by (subst md5sum_loop.simps) (simp add: unhexlify_hexdigest)
    also note IH [unfolded rem]
    finally show ?thesis
      unfolding ch by (simp add: log_call_def)
  qed
qed

lemma str_small: "n < 10 \<Longrightarrow> str n = [''0123456789'' ! n]"
  by (subst str.simps) simp

lemma str_0: "str 0 = ''0''"
  by (simp add: str_small)

lemma filter_chunks: "filter (\<lambda>block. block \<noteq> []) (chunks n xs) = chunks n xs"
  by (rule filter_True) (simp add: chunks_nonempty)

lemma md5sum_eq:
  "md5sum fobj w =
     Inr (multipart_digest (remaining fobj), fobj\<lparr>pos := 0\<rparr>,
          w\<lparr>calls := calls w @ md5sum_calls (remaining fobj)\<rparr>)"
  by (simp add: md5sum_def md5sum_loop_eq multipart_digest_def md5sum_calls_def Let_def
        filter_chunks seek_def hexdigest_def log_call_def)


subsection \<open>The three outcomes of the upload through libcloud\<close>

lemma get_object_None:
  "objects w n = None \<Longrightarrow> get_object w n = (Inl ObjectDoesNotExistError, log_call (Get_object n) w)"
  by (simp add: get_object_def)

lemma get_object_Some:
  "objects w n = Some obj \<Longrightarrow> get_object w n = (Inr obj, log_call (Get_object n) w)"
  by (simp add: get_object_def)

lemma remaining_seek_0: "remaining (f\<lparr>pos := 0\<rparr>) = contents f"
  by (simp add: remaining_def)

lemma size_and_stream:
  "(if isfile e fname then (getsize e fname, f)
    else (let g = seek f 0 SEEK_END; file_size = tell g in (file_size, seek g 0 SEEK_SET)))
   = (measured_size e fname f, if isfile e fname then f else f\<lparr>pos := 0\<rparr>)"
  by (simp add: measured_size_def seek_def tell_def Let_def)

lemma remaining_measured:
  "remaining (if isfile e fname then f else f\<lparr>pos := 0\<rparr>) = hashed_bytes e fname f"
  by (simp add: hashed_bytes_def remaining_seek_0)

lemma rollover_calls_seek: "rollover_calls (f\<lparr>pos := n\<rparr>) = rollover_calls f"
  by (simp add: rollover_calls_def)


lemma rollover_calls_not_delete: "filter is_delete_call (rollover_calls f) = []"
  by (simp add: rollover_calls_def)

lemma rollover_calls_not_hash: "filter is_hash_call (rollover_calls f) = []"
  by (simp add: rollover_calls_def)


lemma upload_stream_fst: "fst (upload_stream e self f n w) = Inr None"
  by (simp add: upload_stream_def rollover_def read_all_def Let_def)

lemma upload_stream_world:
  "snd (snd (upload_stream e self f n w)) =
     w\<lparr>objects := (objects w)(n \<mapsto> stored_object e n (remaining f)),
       calls := calls w @ rollover_calls f @ [Upload_object_via_stream n (remaining f)]\<rparr>"
  by (simp add: upload_stream_def rollover_def rollover_calls_def read_all_def Let_def
        upload_object_via_stream_def log_call_def remaining_def)

lemma upload_libcloud_absent:
  assumes "file_upload self = Some f"
    and "objects w (path_from_filename e rid (the (filename self))) = None"
  shows "fst (upload_libcloud e self rid w) = Inr None"
    and "snd (snd (upload_libcloud e self rid w)) =
           w\<lparr>objects := (objects w)(path_from_filename e rid (the (filename self)) \<mapsto>
                   stored_object e (path_from_filename e rid (the (filename self))) (remaining f)),
             calls := calls w @ [Get_object (path_from_filename e rid (the (filename self)))]
                 @ rollover_calls f
                 @ [Upload_object_via_stream (path_from_filename e rid (the (filename self)))
                      (remaining f)]\<rparr>"
  using assms
  by (simp_all add: upload_libcloud_def Let_def get_object_None upload_stream_fst upload_stream_world
        log_call_def)

lemma upload_libcloud_skipped:
  assumes "file_upload self = Some f"
    and "objects w (path_from_filename e rid (the (filename self))) = Some obj"
    and "already_uploaded e (the (filename self)) f obj"
  shows "fst (upload_libcloud e self rid w) = Inr None"
    and "snd (snd (upload_libcloud e self rid w)) =
           w\<lparr>calls := calls w @ [Get_object (path_from_filename e rid (the (filename self))),
                                 Hashlib_md5 (hashed_bytes e (the (filename self)) f)]
                 @ (if hexdigest (hashed_bytes e (the (filename self)) f) = obj_hash obj then []
                    else md5sum_calls (contents f))\<rparr>"
  using assms
  by (auto simp add: upload_libcloud_def Let_def get_object_Some size_and_stream already_uploaded_def
        read_all_def remaining_measured seek_def md5sum_eq remaining_seek_0 log_call_def)

lemma upload_libcloud_stale:
  assumes "file_upload self = Some f"
    and "objects w (path_from_filename e rid (the (filename self))) = Some obj"
    and "\<not> already_uploaded e (the (filename self)) f obj"
  shows "fst (upload_libcloud e self rid w) = Inr None"
    and "snd (snd (upload_libcloud e self rid w)) =
           w\<lparr>objects := (objects w)(path_from_filename e rid (the (filename self)) \<mapsto>
                   stored_object e (path_from_filename e rid (the (filename self)))
                     (if obj_size obj = measured_size e (the (filename self)) f then contents f
                      else hashed_bytes e (the (filename self)) f)),
             calls := calls w @ [Get_object (path_from_filename e rid (the (filename self)))]
                 @ (if obj_size obj = measured_size e (the (filename self)) f
                    then Hashlib_md5 (hashed_bytes e (the (filename self)) f) # md5sum_calls (contents f)
                    else [])
                 @ rollover_calls f
                 @ [Upload_object_via_stream (path_from_filename e rid (the (filename self)))
                     (if obj_size obj = measured_size e (the (filename self)) f then contents f
                      else hashed_bytes e (the (filename self)) f)]\<rparr>"
  using assms
  by (auto simp add: upload_libcloud_def Let_def get_object_Some size_and_stream already_uploaded_def
        read_all_def remaining_measured seek_def md5sum_eq remaining_seek_0 log_call_def
        upload_stream_fst upload_stream_world rollover_calls_seek)

subsection \<open>Digests and paths of the concrete installation\<close>

text \<open>
  The digests that Python's \<^verbatim>\<open>hashlib\<close> prints for the empty byte string, for
  \<^verbatim>\<open>abc\<close>, and for the sixteen raw bytes of the digest of \<^verbatim>\<open>abc\<close>; the definition
  of \<^verbatim>\<open>md5\<close> computes the same.
\<close>

lemma hexdigest_empty: "hexdigest [] = ''d41d8cd98f00b204e9800998ecf8427e''"
  by code_simp

lemma md5_abc:
  "md5 abc = [0x90, 0x01, 0x50, 0x98, 0x3c, 0xd2, 0x4f, 0xb0,
              0xd6, 0x96, 0x3f, 0x7d, 0x28, 0xe1, 0x7f, 0x72]"
  unfolding abc_def by code_simp

lemma hexdigest_abc: "hexdigest abc = ''900150983cd24fb0d6963f7d28e17f72''"
  unfolding hexdigest_def md5_abc by code_simp

lemma chunks_abc: "chunks AWS_UPLOAD_PART_SIZE abc = [abc]"
  by (simp add: AWS_UPLOAD_PART_SIZE_def abc_def)

lemma hexdigest_md5_abc:
  "hexdigest [0x90, 0x01, 0x50, 0x98, 0x3c, 0xd2, 0x4f, 0xb0,
              0xd6, 0x96, 0x3f, 0x7d, 0x28, 0xe1, 0x7f, 0x72] = ''af5da9f45af7a300e3aded972f8ff687''"
  by code_simp

lemma multipart_digest_abc: "multipart_digest abc = ''af5da9f45af7a300e3aded972f8ff687-1''"
proof -
  have "abc \<noteq> []" by (simp add: abc_def)
  then show ?thesis
    using hexdigest_md5_abc
    by (simp add: multipart_digest_def chunks_abc md5_abc hexdigest_def str_small)
qed

lemma example_no_rollover: "rollover_calls example_stream = []"
  by (simp add: rollover_calls_def example_stream_def)

lemma example_path_eq: "path_from_filename example_env ''r1'' ''data.csv'' = example_path"
  by (simp add: path_from_filename_def os_path_join_def path_join_step_def example_env_def
        example_path_def)


subsection \<open>Skipping an upload that is already there\<close>

lemma new_calls_append: "calls w' = calls w @ cs \<Longrightarrow> new_calls w w' = cs"
  by (simp add: new_calls_def)

lemma upload_is_libcloud:
  "truthy_str (filename self) \<Longrightarrow> \<not> can_use_advanced_azure e \<Longrightarrow>
   upload e self rid w = upload_libcloud e self rid w"
  by (simp add: upload_def)


lemma md5sum_calls_not_delete: "c \<in> set (md5sum_calls data) \<Longrightarrow> \<not> is_delete_call c"
  by (auto simp: md5sum_calls_def)


lemma filter_delete_md5sum_calls: "filter is_delete_call (md5sum_calls data) = []"
  by (simp add: filter_empty_conv md5sum_calls_not_delete)

lemma filter_hash_md5sum_calls: "filter is_hash_call (md5sum_calls data) = md5sum_calls data"
  by (rule filter_True) (auto simp: md5sum_calls_def)



lemma example_not_azure: "\<not> can_use_advanced_azure example_env"
  by (simp add: can_use_advanced_azure_def driver_name_def config_driver_def example_env_def
        example_config_def)


lemma example_already_uploaded:
  "already_uploaded example_env ''data.csv'' example_stream example_object"
  by (simp add: already_uploaded_def measured_size_def hashed_bytes_def example_env_def
        example_stream_def example_object_def hexdigest_abc) (simp add: abc_def)




subsection \<open>What every branch of upload does to the container and the log\<close>

lemma upload_libcloud_no_file:
  "file_upload self = None \<Longrightarrow> upload_libcloud e self rid w = (Inl AttributeError, self, w)"
  by (simp add: upload_libcloud_def)

lemma upload_libcloud_effect:
  "\<exists>cs. calls (snd (snd (upload_libcloud e self rid w))) = calls w @ cs
        \<and> filter is_delete_call cs = []
        \<and> filter is_hash_call cs =
            (case (file_upload self, objects w (path_from_filename e rid (the (filename self)))) of
               (Some f, Some obj) \<Rightarrow>
                 if obj_size obj = measured_size e (the (filename self)) f then
                   Hashlib_md5 (hashed_bytes e (the (filename self)) f)
                     # (if hexdigest (hashed_bytes e (the (filename self)) f) = obj_hash obj then []
                        else md5sum_calls (contents f))
                 else []
             | _ \<Rightarrow> [])
        \<and> dom (objects w) \<subseteq> dom (objects (snd (snd (upload_libcloud e self rid w))))
        \<and> fst (upload_libcloud e self rid w) \<noteq> Inl ObjectDoesNotExistError"
proof (cases "file_upload self")
  case None
  then show ?thesis by (simp add: upload_libcloud_no_file)
next
  case (Some f)
  let ?p = "path_from_filename e rid (the (filename self))"
  show ?thesis
  proof (cases "objects w ?p")
    case None
    note r = upload_libcloud_absent [OF Some None]
    show ?thesis
      by (rule exI [of _ "[Get_object ?p] @ rollover_calls f
                            @ [Upload_object_via_stream ?p (remaining f)]"])
         (auto simp: r Some None rollover_calls_not_delete rollover_calls_not_hash)
  next
    case o: (Some obj)
    show ?thesis
    proof (cases "already_uploaded e (the (filename self)) f obj")
      case True
      note r = upload_libcloud_skipped [OF Some o True]
      from True have sz: "obj_size obj = measured_size e (the (filename self)) f"
        by (simp add: already_uploaded_def)
      show ?thesis
        by (rule exI [of _ "[Get_object ?p, Hashlib_md5 (hashed_bytes e (the (filename self)) f)]
                 @ (if hexdigest (hashed_bytes e (the (filename self)) f) = obj_hash obj then []
                    else md5sum_calls (contents f))"])
           (simp add: r Some o sz filter_delete_md5sum_calls filter_hash_md5sum_calls)
    next
      case False
      note r = upload_libcloud_stale [OF Some o False]
      have ne: "hexdigest (hashed_bytes e (the (filename self)) f) \<noteq> obj_hash obj"
        if "obj_size obj = measured_size e (the (filename self)) f"
        using False that by (auto simp: already_uploaded_def)
      show ?thesis
        by (rule exI [of _ "[Get_object ?p]
                 @ (if obj_size obj = measured_size e (the (filename self)) f
                    then Hashlib_md5 (hashed_bytes e (the (filename self)) f) # md5sum_calls (contents f)
                    else [])
                 @ rollover_calls f
                 @ [Upload_object_via_stream ?p
                     (if obj_size obj = measured_size e (the (filename self)) f then contents f
                      else hashed_bytes e (the (filename self)) f)]"])
           (auto simp: r Some o ne filter_delete_md5sum_calls filter_hash_md5sum_calls
              rollover_calls_not_delete rollover_calls_not_hash)
    qed
  qed
qed

lemma upload_azure_effect:
  "\<exists>cs. calls (snd (snd (upload_azure e self rid w))) = calls w @ cs
        \<and> filter is_delete_call cs = []
        \<and> filter is_hash_call cs = []
        \<and> dom (objects w) \<subseteq> dom (objects (snd (snd (upload_azure e self rid w))))
        \<and> fst (upload_azure e self rid w) \<noteq> Inl ObjectDoesNotExistError"
  by (auto simp: upload_azure_def option_item_def create_blob_from_stream_def read_all_def
        log_call_def Let_def split: option.splits)

lemma upload_clear_effect:
  "\<exists>cs. calls (snd (snd (upload_clear e self rid w))) = calls w @ cs
        \<and> filter is_hash_call cs = []
        \<and> fst (upload_clear e self rid w) = Inr None"
  by (auto simp: upload_clear_def get_object_def delete_object_def log_call_def
        split: option.splits)

lemma upload_clear_absent:
  "objects w (path_from_filename e rid (the (old_filename self))) = None \<Longrightarrow>
   upload_clear e self rid w =
     (Inr None, self, log_call (Get_object (path_from_filename e rid (the (old_filename self)))) w)"
  by (simp add: upload_clear_def get_object_None)

lemma upload_clear_present:
  "objects w (path_from_filename e rid (the (old_filename self))) = Some obj \<Longrightarrow>
   obj_name obj = path_from_filename e rid (the (old_filename self)) \<Longrightarrow>
   upload_clear e self rid w =
     (Inr None, self,
      w\<lparr>objects := (objects w)(path_from_filename e rid (the (old_filename self)) := None),
        calls := calls w @ [Get_object (path_from_filename e rid (the (old_filename self))),
                            Delete_object (path_from_filename e rid (the (old_filename self)))]\<rparr>)"
  by (simp add: upload_clear_def get_object_Some delete_object_def log_call_def)

lemma upload_effect:
  "\<exists>cs. calls (snd (snd (upload e self rid w))) = calls w @ cs
        \<and> filter is_hash_call cs = upload_hash_calls e self rid w
        \<and> (\<not> (truthy (clear self) \<and> truthy_str (old_filename self) \<and> \<not> leave_files e) \<longrightarrow>
             filter is_delete_call cs = []
             \<and> dom (objects w) \<subseteq> dom (objects (snd (snd (upload e self rid w)))))
        \<and> fst (upload e self rid w) \<noteq> Inl ObjectDoesNotExistError"
proof (cases "truthy_str (filename self)")
  case True
  show ?thesis
  proof (cases "can_use_advanced_azure e")
    case az: True
    from upload_azure_effect [of e self rid w] show ?thesis
      using True az by (simp add: upload_def upload_hash_calls_def) blast
  next
    case False
    from upload_libcloud_effect [of e self rid w] show ?thesis
      using True False by (simp add: upload_def upload_hash_calls_def) blast
  qed
next
  case False
  show ?thesis
  proof (cases "truthy (clear self) \<and> truthy_str (old_filename self) \<and> \<not> leave_files e")
    case c: True
    from upload_clear_effect [of e self rid w] show ?thesis
      using False c by (auto simp: upload_def upload_hash_calls_def)
  next
    case c: False
    have "upload e self rid w = (Inr None, self, w)"
      using False c by (auto simp: upload_def)
    then show ?thesis
      using False c by (simp add: upload_hash_calls_def)
  qed
qed

subsection \<open>Deleting old files\<close>

lemma clearing_path_eq:
  "path_from_filename e rid (the (old_filename clearing_storage)) = path_from_filename e rid ''data.csv''"
  by (simp add: clearing_storage_def)

lemma leave_files_path_eq: "path_from_filename leave_files_env ''r1'' ''data.csv'' = example_path"
  by (simp add: path_from_filename_def os_path_join_def path_join_step_def example_env_def
        example_path_def leave_files_env_def)

lemma example_leave_files: "\<not> leave_files example_env"
  by (simp add: leave_files_def config_leave_files_def example_env_def example_config_def)

lemma leave_files_env_leaves: "leave_files leave_files_env"
  by (simp add: leave_files_def config_leave_files_def leave_files_env_def)

lemma clearing_upload_example:
  "upload example_env clearing_storage ''r1'' example_world =
     (Inr None, clearing_storage,
      \<lparr>objects = Map.empty, calls = [Get_object example_path, Delete_object example_path]\<rparr>)"
proof -
  have "upload example_env clearing_storage ''r1'' example_world =
        upload_clear example_env clearing_storage ''r1'' example_world"
    using example_leave_files by (simp add: upload_def clearing_storage_def)
  also have "\<dots> = (Inr None, clearing_storage,
      example_world\<lparr>objects := (objects example_world)(example_path := None),
        calls := calls example_world @ [Get_object example_path, Delete_object example_path]\<rparr>)"
    using upload_clear_present [of example_world example_env "''r1''" clearing_storage example_object]
    by (simp add: clearing_path_eq example_path_eq example_world_def example_object_def)
  finally show ?thesis by (simp add: example_world_def)
qed

text \<open>
  C6. The calls of \<^verbatim>\<open>upload\<close> are added to the log. If \<^verbatim>\<open>leave_files\<close> is configured
  true, \<^verbatim>\<open>upload\<close> makes no \<^verbatim>\<open>delete_object\<close> call and every object of the container
  is still there afterwards. Whenever \<^verbatim>\<open>upload\<close> makes a \<^verbatim>\<open>delete_object\<close> call or an
  object is gone afterwards, \<^verbatim>\<open>clear_upload\<close> was requested, an old filename was recorded
  at construction, and \<^verbatim>\<open>leave_files\<close> is false.
\<close>

theorem upload_deletes_only_when_clearing:
  "calls (snd (snd (upload e self rid w))) =
     calls w @ new_calls w (snd (snd (upload e self rid w)))
   \<and> (leave_files e \<longrightarrow>
        filter is_delete_call (new_calls w (snd (snd (upload e self rid w)))) = []
        \<and> dom (objects w) \<subseteq> dom (objects (snd (snd (upload e self rid w)))))
   \<and> (filter is_delete_call (new_calls w (snd (snd (upload e self rid w)))) \<noteq> []
        \<or> \<not> dom (objects w) \<subseteq> dom (objects (snd (snd (upload e self rid w)))) \<longrightarrow>
        truthy (clear self) \<and> truthy_str (old_filename self) \<and> \<not> leave_files e)"
proof -
  from upload_effect [of e self rid w] obtain cs where
    c: "calls (snd (snd (upload e self rid w))) = calls w @ cs"
    and d: "\<not> (truthy (clear self) \<and> truthy_str (old_filename self) \<and> \<not> leave_files e) \<longrightarrow>
             filter is_delete_call cs = []
             \<and> dom (objects w) \<subseteq> dom (objects (snd (snd (upload e self rid w))))"
    by blast
  have n: "new_calls w (snd (snd (upload e self rid w))) = cs"
    using c by (rule new_calls_append)
  from c d show ?thesis unfolding n by blast
qed

text \<open>
  The theorem at the concrete installation: with \<^verbatim>\<open>leave_files\<close> the clearing of an
  upload deletes nothing; without it the old object is deleted, and the three conditions
  hold.
\<close>

theorem upload_deletes_only_when_clearing_witness:
  "leave_files leave_files_env
   \<and> filter is_delete_call
       (new_calls example_world (snd (snd (upload leave_files_env clearing_storage ''r1'' example_world)))) = []
   \<and> dom (objects example_world)
       \<subseteq> dom (objects (snd (snd (upload leave_files_env clearing_storage ''r1'' example_world))))
   \<and> \<not> dom (objects example_world)
       \<subseteq> dom (objects (snd (snd (upload example_env clearing_storage ''r1'' example_world))))
   \<and> truthy (clear clearing_storage) \<and> truthy_str (old_filename clearing_storage)
   \<and> \<not> leave_files example_env"
proof -
  note t1 = upload_deletes_only_when_clearing [of leave_files_env clearing_storage "''r1''" example_world]
  note t2 = upload_deletes_only_when_clearing [of example_env clearing_storage "''r1''" example_world]
  have gone: "\<not> dom (objects example_world)
       \<subseteq> dom (objects (snd (snd (upload example_env clearing_storage ''r1'' example_world))))"
    by (simp add: clearing_upload_example) (simp add: example_world_def)
  from t1 leave_files_env_leaves t2 gone show ?thesis by blast
qed

subsection \<open>get\_url\_by\_path\<close>

lemma get_url_by_path_unsigned:
  assumes "\<not> (can_use_advanced_azure e \<and> use_secure_urls e)"
    and "\<not> (can_use_advanced_aws e \<and> use_secure_urls e)"
  shows "objects w path = None \<Longrightarrow>
           get_url_by_path e w path = (Inr None, log_call (Get_object path) w)"
    and "objects w path = Some obj \<Longrightarrow>
           get_url_by_path e w path =
             ((case get_object_cdn_url e obj of
                 Some u \<Rightarrow> Inr (Some (Plain_url u))
               | None \<Rightarrow>
                   if str_in ''S3'' (driver_name e) then
                     Inr (Some (Plain_url (urljoin e (''https://'' @ connection_host e)
                                             (container_name e @ ''/'' @ path))))
                   else (case map_of (obj_extra obj) ''url'' of
                           Some u \<Rightarrow> Inr (Some (Plain_url u))
                         | None \<Rightarrow> Inl NotImplementedError)),
              log_call (Get_object path) w)"
  using assms
  by (auto simp: get_url_by_path_def get_object_None get_object_Some split: option.splits)

lemma get_url_by_path_azure:
  assumes "can_use_advanced_azure e" and "use_secure_urls e"
  shows "get_url_by_path e w path =
           (case option_item e ''key'' of
              Inl err \<Rightarrow> (Inl err, w)
            | Inr key \<Rightarrow>
                (case option_item e ''secret'' of
                   Inl err \<Rightarrow> (Inl err, w)
                 | Inr secret \<Rightarrow>
                     (case timedelta_seconds (config_secure_ttl e) of
                        Inl err \<Rightarrow> (Inl err, w)
                      | Inr delta \<Rightarrow>
                          (case datetime_add (utcnow e) delta of
                             Inl err \<Rightarrow> (Inl err, w)
                           | Inr expiry \<Rightarrow>
                               (Inr (Some (Azure_sas_url key secret (container_name e) path
                                             expiry)), w)))))"
  using assms by (simp add: get_url_by_path_def)

lemma get_url_by_path_aws:
  assumes "\<not> can_use_advanced_azure e" and "can_use_advanced_aws e" and "use_secure_urls e"
  shows "get_url_by_path e w path =
           (case option_item e ''key'' of
              Inl err \<Rightarrow> (Inl err, w)
            | Inr key \<Rightarrow>
                (case option_item e ''secret'' of
                   Inl err \<Rightarrow> (Inl err, w)
                 | Inr secret \<Rightarrow>
                     (Inr (Some (S3_presigned_url key secret (map_of (driver_options e) ''region'')
                                   (container_name e) path (config_secure_ttl e))), w)))"
  using assms by (simp add: get_url_by_path_def)

lemma option_item_error: "option_item e k = Inl err \<Longrightarrow> err = KeyError k"
  by (auto simp: option_item_def split: option.splits)

lemma timedelta_seconds_error: "timedelta_seconds n = Inl err \<Longrightarrow> err = OverflowError"
  by (auto simp: timedelta_seconds_def split: if_splits)

lemma datetime_add_error: "datetime_add t d = Inl err \<Longrightarrow> err = OverflowError"
  by (auto simp: datetime_add_def split: if_splits)

lemma get_url_by_path_effect:
  "\<exists>cs. calls (snd (get_url_by_path e w path)) = calls w @ cs
        \<and> filter is_hash_call cs = []
        \<and> objects (snd (get_url_by_path e w path)) = objects w
        \<and> fst (get_url_by_path e w path) \<noteq> Inl ObjectDoesNotExistError"
proof (cases "can_use_advanced_azure e \<and> use_secure_urls e")
  case True
  then show ?thesis
    by (auto simp: get_url_by_path_azure split: sum.splits
          dest: option_item_error timedelta_seconds_error datetime_add_error)
next
  case az: False
  show ?thesis
  proof (cases "can_use_advanced_aws e \<and> use_secure_urls e")
    case True
    with az have "\<not> can_use_advanced_azure e" by blast
    with True show ?thesis
      by (auto simp: get_url_by_path_aws split: sum.splits dest: option_item_error)
  next
    case False
    show ?thesis
    proof (cases "objects w path")
      case None
      show ?thesis
        by (rule exI [of _ "[Get_object path]"])
           (simp add: get_url_by_path_unsigned(1) [OF az False None] log_call_def)
    next
      case (Some obj)
      show ?thesis
        by (rule exI [of _ "[Get_object path]"])
           (auto simp: get_url_by_path_unsigned(2) [OF az False Some] log_call_def
              split: option.splits)
    qed
  qed
qed

lemma example_unsigned:
  "\<not> (can_use_advanced_azure example_env \<and> use_secure_urls example_env)"
  "\<not> (can_use_advanced_aws example_env \<and> use_secure_urls example_env)"
  by (simp_all add: use_secure_urls_def config_use_secure_def example_env_def example_config_def)

lemma get_url_by_path_key_error:
  assumes "use_secure_urls e" and "can_use_advanced_azure e \<or> can_use_advanced_aws e"
    and "map_of (driver_options e) ''key'' = None \<or> map_of (driver_options e) ''secret'' = None"
  shows "fst (get_url_by_path e w path) =
           Inl (KeyError (if map_of (driver_options e) ''key'' = None then ''key'' else ''secret''))"
proof (cases "can_use_advanced_azure e")
  case True
  with assms show ?thesis
    by (auto simp: get_url_by_path_azure option_item_def split: option.splits)
next
  case False
  with assms have "can_use_advanced_aws e" by blast
  with False assms show ?thesis
    by (auto simp: get_url_by_path_aws option_item_def split: option.splits)
qed

lemma get_url_by_path_azure_expiry:
  assumes "can_use_advanced_azure e" and "use_secure_urls e"
    and "option_item e ''key'' = Inr key" and "option_item e ''secret'' = Inr secret"
  shows "fst (get_url_by_path e w path) =
           (if expiry_representable e
            then Inr (Some (Azure_sas_url key secret (container_name e) path
                              (utcnow e + config_secure_ttl e * 1000000)))
            else Inl OverflowError)"
  using assms
  by (simp add: get_url_by_path_azure timedelta_seconds_def datetime_add_def
        expiry_representable_def)

text \<open>
  C2, as the code has it. With secure URLs on the advanced Azure or the advanced AWS
  path, \<^verbatim>\<open>get_url_by_path\<close> raises \<^verbatim>\<open>KeyError\<close> when the driver options lack \<^verbatim>\<open>key\<close> or
  \<^verbatim>\<open>secret\<close>. With both, on the Azure path it raises \<^verbatim>\<open>OverflowError\<close> when the time
  of the call plus \<^verbatim>\<open>config.secure_ttl()\<close> seconds is no \<^verbatim>\<open>datetime\<close>, and otherwise
  returns the Azure SDK's URL with a read signature that expires exactly
  \<^verbatim>\<open>config.secure_ttl()\<close> seconds after the time of the call; on the AWS path (and
  not the Azure one) it returns boto3's presigned URL with \<^verbatim>\<open>ExpiresIn\<close> equal to
  \<^verbatim>\<open>config.secure_ttl()\<close>. In every other configuration it returns \<^verbatim>\<open>None\<close> when no
  object exists at the path; for an object that exists it returns the driver's CDN URL,
  or, when the driver has none, the joined \<^verbatim>\<open>https://host/container/path\<close> for an S3
  driver and otherwise the \<^verbatim>\<open>url\<close> of the object's extra attributes, and raises
  \<^verbatim>\<open>NotImplementedError\<close> when there is none.
\<close>

theorem get_url_by_path_signed_or_plain:
  "(use_secure_urls e \<and> (can_use_advanced_azure e \<or> can_use_advanced_aws e) \<longrightarrow>
      map_of (driver_options e) ''key'' = None \<or> map_of (driver_options e) ''secret'' = None \<longrightarrow>
      fst (get_url_by_path e w path) =
        Inl (KeyError (if map_of (driver_options e) ''key'' = None then ''key'' else ''secret'')))
   \<and> (can_use_advanced_azure e \<and> use_secure_urls e \<longrightarrow>
      option_item e ''key'' = Inr key \<longrightarrow> option_item e ''secret'' = Inr secret \<longrightarrow>
      \<not> expiry_representable e \<longrightarrow>
      fst (get_url_by_path e w path) = Inl OverflowError)
   \<and> (can_use_advanced_azure e \<and> use_secure_urls e \<longrightarrow>
      option_item e ''key'' = Inr key \<longrightarrow> option_item e ''secret'' = Inr secret \<longrightarrow>
      expiry_representable e \<longrightarrow>
      fst (get_url_by_path e w path) =
        Inr (Some (Azure_sas_url key secret (container_name e) path
                     (utcnow e + config_secure_ttl e * 1000000))))
   \<and> (\<not> can_use_advanced_azure e \<and> can_use_advanced_aws e \<and> use_secure_urls e \<longrightarrow>
      option_item e ''key'' = Inr key \<longrightarrow> option_item e ''secret'' = Inr secret \<longrightarrow>
      fst (get_url_by_path e w path) =
        Inr (Some (S3_presigned_url key secret (map_of (driver_options e) ''region'')
                     (container_name e) path (config_secure_ttl e))))
   \<and> (\<not> (use_secure_urls e \<and> (can_use_advanced_azure e \<or> can_use_advanced_aws e)) \<longrightarrow>
      (objects w path = None \<longrightarrow> fst (get_url_by_path e w path) = Inr None)
      \<and> (\<forall>obj. objects w path = Some obj \<longrightarrow>
            fst (get_url_by_path e w path) =
              (case get_object_cdn_url e obj of
                 Some u \<Rightarrow> Inr (Some (Plain_url u))
               | None \<Rightarrow>
                   if str_in ''S3'' (driver_name e) then
                     Inr (Some (Plain_url (urljoin e (''https://'' @ connection_host e)
                                             (container_name e @ ''/'' @ path))))
                   else (case map_of (obj_extra obj) ''url'' of
                           Some u \<Rightarrow> Inr (Some (Plain_url u))
                         | None \<Rightarrow> Inl NotImplementedError))))"
proof (intro conjI impI allI)
  assume "use_secure_urls e \<and> (can_use_advanced_azure e \<or> can_use_advanced_aws e)"
    and "map_of (driver_options e) ''key'' = None \<or> map_of (driver_options e) ''secret'' = None"
  then show "fst (get_url_by_path e w path) =
        Inl (KeyError (if map_of (driver_options e) ''key'' = None then ''key'' else ''secret''))"
    by (intro get_url_by_path_key_error) blast+
next
  assume "can_use_advanced_azure e \<and> use_secure_urls e"
    and "option_item e ''key'' = Inr key" and "option_item e ''secret'' = Inr secret"
    and "\<not> expiry_representable e"
  then show "fst (get_url_by_path e w path) = Inl OverflowError"
    by (simp add: get_url_by_path_azure_expiry)
next
  assume "can_use_advanced_azure e \<and> use_secure_urls e"
    and "option_item e ''key'' = Inr key" and "option_item e ''secret'' = Inr secret"
    and "expiry_representable e"
  then show "fst (get_url_by_path e w path) =
        Inr (Some (Azure_sas_url key secret (container_name e) path
                     (utcnow e + config_secure_ttl e * 1000000)))"
    by (simp add: get_url_by_path_azure_expiry)
next
  assume "\<not> can_use_advanced_azure e \<and> can_use_advanced_aws e \<and> use_secure_urls e"
    and "option_item e ''key'' = Inr key" and "option_item e ''secret'' = Inr secret"
  then show "fst (get_url_by_path e w path) =
        Inr (Some (S3_presigned_url key secret (map_of (driver_options e) ''region'')
                     (container_name e) path (config_secure_ttl e)))"
    by (simp add: get_url_by_path_aws)
next
  assume u: "\<not> (use_secure_urls e \<and> (can_use_advanced_azure e \<or> can_use_advanced_aws e))"
    and n: "objects w path = None"
  from u have "\<not> (can_use_advanced_azure e \<and> use_secure_urls e)"
    and "\<not> (can_use_advanced_aws e \<and> use_secure_urls e)" by blast+
  from get_url_by_path_unsigned(1) [OF this n]
  show "fst (get_url_by_path e w path) = Inr None" by simp
next
  fix obj
  assume u: "\<not> (use_secure_urls e \<and> (can_use_advanced_azure e \<or> can_use_advanced_aws e))"
    and s: "objects w path = Some obj"
  from u have "\<not> (can_use_advanced_azure e \<and> use_secure_urls e)"
    and "\<not> (can_use_advanced_aws e \<and> use_secure_urls e)" by blast+
  from get_url_by_path_unsigned(2) [OF this s]
  show "fst (get_url_by_path e w path) =
              (case get_object_cdn_url e obj of
                 Some u \<Rightarrow> Inr (Some (Plain_url u))
               | None \<Rightarrow>
                   if str_in ''S3'' (driver_name e) then
                     Inr (Some (Plain_url (urljoin e (''https://'' @ connection_host e)
                                             (container_name e @ ''/'' @ path))))
                   else (case map_of (obj_extra obj) ''url'' of
                           Some u \<Rightarrow> Inr (Some (Plain_url u))
                         | None \<Rightarrow> Inl NotImplementedError))"
    by simp
qed

lemma azure_env_secure: "can_use_advanced_azure azure_env \<and> use_secure_urls azure_env"
  by (simp add: can_use_advanced_azure_def use_secure_urls_def driver_name_def config_driver_def
        config_use_secure_def azure_env_def)

lemma azure_env_keys:
  "option_item azure_env ''key'' = Inr ''AKIAEXAMPLE''"
  "option_item azure_env ''secret'' = Inr ''s3cr3t''"
  by (simp_all add: option_item_def driver_options_def config_options_def azure_env_def
        example_config_def)

lemma azure_env_representable: "expiry_representable azure_env"
  by (simp add: expiry_representable_def config_secure_ttl_def datetime_min_def datetime_max_def
        azure_env_def example_env_def example_config_def)

lemma azure_long_ttl_secure:
  "can_use_advanced_azure azure_long_ttl_env \<and> use_secure_urls azure_long_ttl_env"
  by (simp add: can_use_advanced_azure_def use_secure_urls_def driver_name_def config_driver_def
        config_use_secure_def azure_long_ttl_env_def)

lemma azure_long_ttl_keys:
  "option_item azure_long_ttl_env ''key'' = Inr ''AKIAEXAMPLE''"
  "option_item azure_long_ttl_env ''secret'' = Inr ''s3cr3t''"
  by (simp_all add: option_item_def driver_options_def config_options_def azure_long_ttl_env_def
        example_config_def)

lemma azure_long_ttl_not_representable: "\<not> expiry_representable azure_long_ttl_env"
  by (simp add: expiry_representable_def config_secure_ttl_def datetime_min_def datetime_max_def
        azure_long_ttl_env_def example_env_def example_config_def)

lemma aws_secure_env_secure:
  "\<not> can_use_advanced_azure aws_secure_env \<and> can_use_advanced_aws aws_secure_env
   \<and> use_secure_urls aws_secure_env"
  by (simp add: can_use_advanced_azure_def can_use_advanced_aws_def use_secure_urls_def
        driver_name_def config_driver_def config_use_secure_def driver_options_def
        config_options_def aws_secure_env_def example_config_def example_env_def)

lemma aws_secure_env_keys:
  "option_item aws_secure_env ''key'' = Inr ''AKIAEXAMPLE''"
  "option_item aws_secure_env ''secret'' = Inr ''s3cr3t''"
  by (simp_all add: option_item_def driver_options_def config_options_def aws_secure_env_def)

lemma aws_no_secret_secure:
  "use_secure_urls aws_no_secret_env \<and> can_use_advanced_aws aws_no_secret_env
   \<and> \<not> can_use_advanced_azure aws_no_secret_env"
  by (simp add: can_use_advanced_azure_def can_use_advanced_aws_def use_secure_urls_def
        driver_name_def config_driver_def config_use_secure_def driver_options_def
        config_options_def aws_no_secret_env_def example_config_def example_env_def)

lemma aws_no_secret_options:
  "map_of (driver_options aws_no_secret_env) ''key'' = Some ''AKIAEXAMPLE''"
  "map_of (driver_options aws_no_secret_env) ''secret'' = None"
  by (simp_all add: driver_options_def config_options_def aws_no_secret_env_def)

lemma google_unsigned:
  "\<not> (can_use_advanced_azure google_env \<and> use_secure_urls google_env)"
  "\<not> (can_use_advanced_aws google_env \<and> use_secure_urls google_env)"
  by (simp_all add: use_secure_urls_def config_use_secure_def google_env_def example_env_def
        example_config_def)

text \<open>
  The theorem at the concrete installations: \<^verbatim>\<open>KeyError\<close> for the S3 installation without
  a secret, \<^verbatim>\<open>OverflowError\<close> for 9500 years on Azure, an Azure URL that expires 3600
  seconds after the call, an S3 URL presigned for 3600 seconds, and, without secure URLs,
  the joined URL of the object that exists.
\<close>

theorem get_url_by_path_signed_or_plain_witness:
  "use_secure_urls aws_no_secret_env \<and> can_use_advanced_aws aws_no_secret_env
   \<and> map_of (driver_options aws_no_secret_env) ''secret'' = None
   \<and> fst (get_url_by_path aws_no_secret_env empty_world example_path) = Inl (KeyError ''secret'')
   \<and> can_use_advanced_azure azure_long_ttl_env \<and> use_secure_urls azure_long_ttl_env
   \<and> \<not> expiry_representable azure_long_ttl_env
   \<and> fst (get_url_by_path azure_long_ttl_env empty_world example_path) = Inl OverflowError
   \<and> can_use_advanced_azure azure_env \<and> use_secure_urls azure_env
   \<and> expiry_representable azure_env
   \<and> fst (get_url_by_path azure_env empty_world example_path) =
       Inr (Some (Azure_sas_url ''AKIAEXAMPLE'' ''s3cr3t'' ''ckan'' example_path
                    (1700000000000000 + 3600 * 1000000)))
   \<and> \<not> can_use_advanced_azure aws_secure_env \<and> can_use_advanced_aws aws_secure_env
   \<and> use_secure_urls aws_secure_env
   \<and> fst (get_url_by_path aws_secure_env empty_world example_path) =
       Inr (Some (S3_presigned_url ''AKIAEXAMPLE'' ''s3cr3t'' (Some ''eu-west-1'') ''ckan''
                    example_path 3600))
   \<and> \<not> (use_secure_urls example_env
         \<and> (can_use_advanced_azure example_env \<or> can_use_advanced_aws example_env))
   \<and> fst (get_url_by_path example_env example_world example_path) =
       Inr (Some (Plain_url ''https://s3.amazonaws.com/ckan/resources/r1/data.csv''))"
proof -
  have ex: "\<not> (use_secure_urls example_env
         \<and> (can_use_advanced_azure example_env \<or> can_use_advanced_aws example_env))"
    using example_unsigned by blast
  have o: "objects example_world example_path = Some example_object"
    by (simp add: example_world_def)
  note t0 = get_url_by_path_signed_or_plain
              [of aws_no_secret_env empty_world example_path "''AKIAEXAMPLE''" "''s3cr3t''"]
  note t1 = get_url_by_path_signed_or_plain
              [of azure_env empty_world example_path "''AKIAEXAMPLE''" "''s3cr3t''"]
  note t2 = get_url_by_path_signed_or_plain
              [of aws_secure_env empty_world example_path "''AKIAEXAMPLE''" "''s3cr3t''"]
  note t3 = get_url_by_path_signed_or_plain
              [of example_env example_world example_path "''AKIAEXAMPLE''" "''s3cr3t''"]
  note t4 = get_url_by_path_signed_or_plain
              [of azure_long_ttl_env empty_world example_path "''AKIAEXAMPLE''" "''s3cr3t''"]
  from t0 aws_no_secret_secure aws_no_secret_options
  have r0: "fst (get_url_by_path aws_no_secret_env empty_world example_path) =
        Inl (KeyError (if map_of (driver_options aws_no_secret_env) ''key'' = None
                       then ''key'' else ''secret''))"
    by blast
  from t4 azure_long_ttl_secure azure_long_ttl_keys azure_long_ttl_not_representable
  have v4: "fst (get_url_by_path azure_long_ttl_env empty_world example_path) = Inl OverflowError"
    by blast
  from t1 azure_env_secure azure_env_keys azure_env_representable
  have r1: "fst (get_url_by_path azure_env empty_world example_path) =
        Inr (Some (Azure_sas_url ''AKIAEXAMPLE'' ''s3cr3t'' (container_name azure_env) example_path
                     (utcnow azure_env + config_secure_ttl azure_env * 1000000)))"
    by blast
  from t2 aws_secure_env_secure aws_secure_env_keys
  have r2: "fst (get_url_by_path aws_secure_env empty_world example_path) =
        Inr (Some (S3_presigned_url ''AKIAEXAMPLE'' ''s3cr3t''
                     (map_of (driver_options aws_secure_env) ''region'')
                     (container_name aws_secure_env) example_path (config_secure_ttl aws_secure_env)))"
    by blast
  from t3 ex o
  have r3: "fst (get_url_by_path example_env example_world example_path) =
              (case get_object_cdn_url example_env example_object of
                 Some u \<Rightarrow> Inr (Some (Plain_url u))
               | None \<Rightarrow>
                   if str_in ''S3'' (driver_name example_env) then
                     Inr (Some (Plain_url (urljoin example_env (''https://'' @ connection_host example_env)
                                             (container_name example_env @ ''/'' @ example_path))))
                   else (case map_of (obj_extra example_object) ''url'' of
                           Some u \<Rightarrow> Inr (Some (Plain_url u))
                         | None \<Rightarrow> Inl NotImplementedError))"
    by blast
  have v0: "fst (get_url_by_path aws_no_secret_env empty_world example_path) =
              Inl (KeyError ''secret'')"
    unfolding r0 by (simp add: aws_no_secret_options)
  have v1: "fst (get_url_by_path azure_env empty_world example_path) =
       Inr (Some (Azure_sas_url ''AKIAEXAMPLE'' ''s3cr3t'' ''ckan'' example_path
                    (1700000000000000 + 3600 * 1000000)))"
    unfolding r1
    by (simp add: container_name_def config_container_def config_secure_ttl_def
          azure_env_def example_env_def example_config_def)
  have v2: "fst (get_url_by_path aws_secure_env empty_world example_path) =
       Inr (Some (S3_presigned_url ''AKIAEXAMPLE'' ''s3cr3t'' (Some ''eu-west-1'') ''ckan''
                    example_path 3600))"
    unfolding r2
    by (simp add: container_name_def config_container_def config_secure_ttl_def
          driver_options_def config_options_def aws_secure_env_def example_env_def
          example_config_def)
  have v3: "fst (get_url_by_path example_env example_world example_path) =
       Inr (Some (Plain_url ''https://s3.amazonaws.com/ckan/resources/r1/data.csv''))"
    unfolding r3
    by (simp add: container_name_def config_container_def driver_name_def config_driver_def
          example_env_def example_config_def example_path_def)
  from aws_no_secret_secure aws_no_secret_options azure_long_ttl_secure
    azure_long_ttl_not_representable azure_env_secure azure_env_representable
    aws_secure_env_secure ex v0 v1 v2 v3 v4
  show ?thesis by blast
qed

text \<open>
  C2 as stated promises a signed URL whenever a secure branch applies and a plain URL
  whenever none does. Without secure URLs and with no object at the path,
  \<^verbatim>\<open>get_url_by_path\<close> returns \<^verbatim>\<open>None\<close>; without secure URLs, for a driver that has no
  CDN URL and no \<^verbatim>\<open>S3\<close> in its name and an object without a \<^verbatim>\<open>url\<close> among its extra
  attributes, it raises \<^verbatim>\<open>NotImplementedError\<close>; on the secure S3 path without a
  \<^verbatim>\<open>secret\<close> among the driver options it raises \<^verbatim>\<open>KeyError\<close>; and on the secure Azure
  path with 300000000000 seconds to live it raises \<^verbatim>\<open>OverflowError\<close>.
\<close>

theorem get_url_by_path_none_counterexample:
  "\<not> (use_secure_urls example_env
       \<and> (can_use_advanced_azure example_env \<or> can_use_advanced_aws example_env))
   \<and> objects empty_world example_path = None
   \<and> fst (get_url_by_path example_env empty_world example_path) = Inr None
   \<and> \<not> (use_secure_urls google_env
       \<and> (can_use_advanced_azure google_env \<or> can_use_advanced_aws google_env))
   \<and> objects example_world example_path = Some example_object
   \<and> fst (get_url_by_path google_env example_world example_path) = Inl NotImplementedError
   \<and> use_secure_urls aws_no_secret_env \<and> can_use_advanced_aws aws_no_secret_env
   \<and> fst (get_url_by_path aws_no_secret_env example_world example_path) = Inl (KeyError ''secret'')
   \<and> use_secure_urls azure_long_ttl_env \<and> can_use_advanced_azure azure_long_ttl_env
   \<and> fst (get_url_by_path azure_long_ttl_env example_world example_path) = Inl OverflowError"
proof -
  have n: "objects empty_world example_path = None"
    by (simp add: empty_world_def)
  have o: "objects example_world example_path = Some example_object"
    by (simp add: example_world_def)
  from get_url_by_path_unsigned(1) [OF example_unsigned n]
  have a: "fst (get_url_by_path example_env empty_world example_path) = Inr None" by simp
  from get_url_by_path_unsigned(2) [OF google_unsigned o]
  have b: "fst (get_url_by_path google_env example_world example_path) = Inl NotImplementedError"
    by (simp add: google_env_def example_env_def example_object_def driver_name_def
          config_driver_def)
  have c: "fst (get_url_by_path aws_no_secret_env example_world example_path) =
             Inl (KeyError ''secret'')"
    using get_url_by_path_key_error [of aws_no_secret_env example_world example_path]
      aws_no_secret_secure aws_no_secret_options
    by simp
  have d: "fst (get_url_by_path azure_long_ttl_env example_world example_path) = Inl OverflowError"
    using get_url_by_path_azure_expiry [of azure_long_ttl_env "''AKIAEXAMPLE''" "''s3cr3t''"
            example_world example_path]
      azure_long_ttl_secure azure_long_ttl_keys azure_long_ttl_not_representable
    by simp
  from n o a b c d example_unsigned google_unsigned aws_no_secret_secure azure_long_ttl_secure
  show ?thesis by blast
qed

subsection \<open>ObjectDoesNotExistError and the digests the adapter computes\<close>

text \<open>
  C5. Neither \<^verbatim>\<open>upload\<close> nor \<^verbatim>\<open>get_url_by_path\<close> ever raises
  \<^verbatim>\<open>ObjectDoesNotExistError\<close>. When no secure-URL branch applies and no object exists
  at the path, \<^verbatim>\<open>get_url_by_path\<close> returns \<^verbatim>\<open>None\<close>. When an upload is cleared (no
  new filename, \<^verbatim>\<open>clear_upload\<close> set, an old filename recorded, \<^verbatim>\<open>leave_files\<close> false)
  and the old object is absent from the container, \<^verbatim>\<open>upload\<close> returns \<^verbatim>\<open>None\<close> and
  leaves the objects of the container as they are.
\<close>

theorem object_does_not_exist_never_propagates:
  "fst (upload e self rid w) \<noteq> Inl ObjectDoesNotExistError
   \<and> fst (get_url_by_path e w path) \<noteq> Inl ObjectDoesNotExistError
   \<and> (\<not> (can_use_advanced_azure e \<and> use_secure_urls e) \<longrightarrow>
       \<not> (can_use_advanced_aws e \<and> use_secure_urls e) \<longrightarrow>
       objects w path = None \<longrightarrow>
       fst (get_url_by_path e w path) = Inr None)
   \<and> (\<not> truthy_str (filename self) \<longrightarrow> truthy (clear self) \<longrightarrow>
       truthy_str (old_filename self) \<longrightarrow> \<not> leave_files e \<longrightarrow>
       objects w (path_from_filename e rid (the (old_filename self))) = None \<longrightarrow>
       fst (upload e self rid w) = Inr None
       \<and> objects (snd (snd (upload e self rid w))) = objects w)"
proof (intro conjI impI)
  show "fst (upload e self rid w) \<noteq> Inl ObjectDoesNotExistError"
    using upload_effect [of e self rid w] by blast
next
  show "fst (get_url_by_path e w path) \<noteq> Inl ObjectDoesNotExistError"
    using get_url_by_path_effect [of e w path] by blast
next
  assume "\<not> (can_use_advanced_azure e \<and> use_secure_urls e)"
    and "\<not> (can_use_advanced_aws e \<and> use_secure_urls e)" and "objects w path = None"
  from get_url_by_path_unsigned(1) [OF this]
  show "fst (get_url_by_path e w path) = Inr None" by simp
next
  assume a: "\<not> truthy_str (filename self)" "truthy (clear self)"
    "truthy_str (old_filename self)" "\<not> leave_files e"
    and n: "objects w (path_from_filename e rid (the (old_filename self))) = None"
  from a have u: "upload e self rid w = upload_clear e self rid w"
    by (simp add: upload_def)
  show "fst (upload e self rid w) = Inr None"
    by (simp add: u upload_clear_absent [OF n])
  show "objects (snd (snd (upload e self rid w))) = objects w"
    by (simp add: u upload_clear_absent [OF n] log_call_def)
qed

text \<open>
  The theorem at the concrete installation, where the container holds no object: the
  URL of an absent object is \<^verbatim>\<open>None\<close>, and clearing an upload whose object is absent
  returns \<^verbatim>\<open>None\<close>.
\<close>

theorem object_does_not_exist_never_propagates_witness:
  "\<not> (can_use_advanced_azure example_env \<and> use_secure_urls example_env)
   \<and> \<not> (can_use_advanced_aws example_env \<and> use_secure_urls example_env)
   \<and> objects empty_world example_path = None
   \<and> fst (get_url_by_path example_env empty_world example_path) = Inr None
   \<and> \<not> truthy_str (filename clearing_storage) \<and> truthy (clear clearing_storage)
   \<and> truthy_str (old_filename clearing_storage) \<and> \<not> leave_files example_env
   \<and> objects empty_world (path_from_filename example_env ''r1'' (the (old_filename clearing_storage))) = None
   \<and> fst (upload example_env clearing_storage ''r1'' empty_world) = Inr None
   \<and> objects (snd (snd (upload example_env clearing_storage ''r1'' empty_world))) = objects empty_world"
proof -
  have n: "objects empty_world example_path = None"
    and n': "objects empty_world
               (path_from_filename example_env ''r1'' (the (old_filename clearing_storage))) = None"
    by (simp_all add: empty_world_def)
  have c: "\<not> truthy_str (filename clearing_storage)" "truthy (clear clearing_storage)"
    "truthy_str (old_filename clearing_storage)"
    by (simp_all add: clearing_storage_def)
  note t = object_does_not_exist_never_propagates
             [of example_env clearing_storage "''r1''" empty_world example_path]
  from t example_unsigned n n' c example_leave_files show ?thesis by blast
qed

text \<open>
  C4, as the code has it. The digests are computed by \<^verbatim>\<open>hashlib.md5\<close>, which the adapter
  calls itself: \<^verbatim>\<open>upload\<close> makes exactly the calls of \<^verbatim>\<open>upload_hash_calls\<close>, that is,
  on the libcloud path, when an object is found whose size equals the measured size,
  one call on the bytes read from the upload and, when that digest is not the hash of
  the object, the calls of \<^verbatim>\<open>_md5sum\<close> on the blocks of the upload and on their
  concatenated digests. \<^verbatim>\<open>get_url_by_path\<close> computes no digest.
\<close>

theorem adapter_calls_hashlib_itself:
  "filter is_hash_call (new_calls w (snd (snd (upload e self rid w)))) =
     upload_hash_calls e self rid w
   \<and> filter is_hash_call (new_calls w (snd (get_url_by_path e w path))) = []"
proof
  from upload_effect [of e self rid w] obtain cs where
    c: "calls (snd (snd (upload e self rid w))) = calls w @ cs"
    and h: "filter is_hash_call cs = upload_hash_calls e self rid w"
    by blast
  have "new_calls w (snd (snd (upload e self rid w))) = cs"
    using c by (rule new_calls_append)
  with h show "filter is_hash_call (new_calls w (snd (snd (upload e self rid w)))) =
     upload_hash_calls e self rid w"
    by simp
next
  from get_url_by_path_effect [of e w path] obtain cs where
    c: "calls (snd (get_url_by_path e w path)) = calls w @ cs"
    and h: "filter is_hash_call cs = []"
    by blast
  have "new_calls w (snd (get_url_by_path e w path)) = cs"
    using c by (rule new_calls_append)
  with h show "filter is_hash_call (new_calls w (snd (get_url_by_path e w path))) = []"
    by simp
qed

text \<open>
  The theorem at the concrete installation: the upload of the three bytes, with the
  object of the earlier upload in the container, makes one call to \<^verbatim>\<open>hashlib.md5\<close>, on
  the three bytes.
\<close>

theorem adapter_calls_hashlib_itself_witness:
  "filter is_hash_call
     (new_calls example_world (snd (snd (upload example_env example_storage ''r1'' example_world)))) =
     [Hashlib_md5 abc]
   \<and> filter is_hash_call
       (new_calls example_world (snd (get_url_by_path example_env example_world example_path))) = []"
proof -
  note t = adapter_calls_hashlib_itself
             [of example_world example_env example_storage "''r1''" example_path]
  have h2: "filename example_storage = Some ''data.csv''"
    and h4: "file_upload example_storage = Some example_stream"
    by (simp_all add: example_storage_def)
  have o: "objects example_world (path_from_filename example_env ''r1'' ''data.csv'') =
             Some example_object"
    by (simp add: example_path_eq example_world_def)
  have ms: "measured_size example_env ''data.csv'' example_stream = 3"
    and hb: "hashed_bytes example_env ''data.csv'' example_stream = abc"
    by (simp_all add: measured_size_def hashed_bytes_def example_env_def example_stream_def abc_def)
  have ob: "obj_size example_object = 3"
    "obj_hash example_object = ''900150983cd24fb0d6963f7d28e17f72''"
    by (simp_all add: example_object_def)
  have "upload_hash_calls example_env example_storage ''r1'' example_world = [Hashlib_md5 abc]"
    using example_not_azure
    by (simp add: upload_hash_calls_def h2 h4 o ms hb ob hexdigest_abc)
  with t show ?thesis by simp
qed

text \<open>
  C4 as stated says that no operation of the adapter computes a hash of the uploaded
  file's contents itself. The upload of the three bytes calls \<^verbatim>\<open>hashlib.md5\<close> on them.
\<close>

theorem upload_hashes_the_contents_counterexample:
  "contents (the (file_upload example_storage)) = abc
   \<and> Hashlib_md5 abc
       \<in> set (calls (snd (snd (upload example_env example_storage ''r1'' example_world))))"
proof -
  have h2: "filename example_storage = Some ''data.csv''"
    and h4: "file_upload example_storage = Some example_stream"
    by (simp_all add: example_storage_def)
  have fn: "the (filename example_storage) = ''data.csv''" using h2 by simp
  have o: "objects example_world (path_from_filename example_env ''r1'' ''data.csv'') =
             Some example_object"
    by (simp add: example_path_eq example_world_def)
  have up: "upload example_env example_storage ''r1'' example_world =
            upload_libcloud example_env example_storage ''r1'' example_world"
    using h2 example_not_azure by (simp add: upload_is_libcloud)
  note r = upload_libcloud_skipped [of example_storage example_stream example_world example_env
             "''r1''" example_object, unfolded fn, OF h4 o example_already_uploaded]
  have hb: "hashed_bytes example_env ''data.csv'' example_stream = abc"
    by (simp add: hashed_bytes_def example_env_def example_stream_def)
  have "Hashlib_md5 abc
       \<in> set (calls (snd (snd (upload example_env example_storage ''r1'' example_world))))"
    by (simp add: up r hb)
  moreover have "contents (the (file_upload example_storage)) = abc"
    by (simp add: h4 example_stream_def)
  ultimately show ?thesis by blast
qed

subsection \<open>Runs of the concrete installation\<close>

text \<open>
  \<^verbatim>\<open>_md5sum\<close> on an empty file object and on the three bytes, with the digests Python
  prints; and the upload of the three bytes when the object at the path has their size
  and another hash: both digests are computed, none is the hash, and the bytes are
  uploaded.
\<close>

lemma md5sum_empty_example:
  "md5sum \<lparr>contents = [], pos = 0, kind = Other_file\<rparr> empty_world =
     Inr (''d41d8cd98f00b204e9800998ecf8427e-0'', \<lparr>contents = [], pos = 0, kind = Other_file\<rparr>,
          \<lparr>objects = Map.empty, calls = [Hashlib_md5 []]\<rparr>)"
  using hexdigest_empty
  by (simp add: md5sum_eq remaining_def multipart_digest_def md5sum_calls_def hexdigest_def
        str_0 empty_world_def)

lemma md5sum_abc_example:
  "md5sum example_stream empty_world =
     Inr (''af5da9f45af7a300e3aded972f8ff687-1'', example_stream,
          \<lparr>objects = Map.empty, calls = [Hashlib_md5 abc, Hashlib_md5 (md5 abc)]\<rparr>)"
proof -
  have r: "remaining example_stream = abc"
    by (simp add: remaining_def example_stream_def)
  show ?thesis
    by (simp add: md5sum_eq r multipart_digest_abc md5sum_calls_def chunks_abc empty_world_def)
       (simp add: example_stream_def)
qed

lemma stale_upload_example:
  "calls (snd (snd (upload example_env example_storage ''r1'' stale_world))) =
     [Get_object example_path, Hashlib_md5 abc, Hashlib_md5 abc, Hashlib_md5 (md5 abc),
      Upload_object_via_stream example_path abc]"
proof -
  have h2: "filename example_storage = Some ''data.csv''"
    and h4: "file_upload example_storage = Some example_stream"
    by (simp_all add: example_storage_def)
  have fn: "the (filename example_storage) = ''data.csv''" using h2 by simp
  have o: "objects stale_world (path_from_filename example_env ''r1'' ''data.csv'') =
             Some stale_object"
    by (simp add: example_path_eq stale_world_def)
  have ms: "measured_size example_env ''data.csv'' example_stream = 3"
    and hb: "hashed_bytes example_env ''data.csv'' example_stream = abc"
    and ct: "contents example_stream = abc"
    by (simp_all add: measured_size_def hashed_bytes_def example_env_def example_stream_def abc_def)
  have ob: "obj_size stale_object = 3"
    "obj_hash stale_object = ''0123456789abcdef0123456789abcdef''"
    by (simp_all add: stale_object_def example_object_def)
  have na: "\<not> already_uploaded example_env ''data.csv'' example_stream stale_object"
    by (simp add: already_uploaded_def ms hb ct ob hexdigest_abc multipart_digest_abc)
  have up: "upload example_env example_storage ''r1'' stale_world =
            upload_libcloud example_env example_storage ''r1'' stale_world"
    using h2 example_not_azure by (simp add: upload_is_libcloud)
  note r = upload_libcloud_stale [of example_storage example_stream stale_world example_env
             "''r1''" stale_object, unfolded fn, OF h4 o na]
  show ?thesis
    by (simp add: up r ms hb ct ob example_path_eq md5sum_calls_def chunks_abc
          example_no_rollover)
       (simp add: stale_world_def)
qed

subsection \<open>Where a provided upload goes\<close>
































end
